theory Spec2Isabelle
  imports Complex_Main "HOL-Library.Multiset"
begin

section \<open>JavaScript numbers and strings\<close>

text \<open>
  A JavaScript Number is modelled by its mathematical value: \<open>NaN\<close>, the two infinities,
  or a finite value, kept as an exact rational. Rounding to IEEE binary64 (with it the
  overflow of a finite literal to an infinity) and the sign of zero are not modelled.
  Strings are lists of one-byte characters (ASCII).
\<close>

datatype jsnum = NaN | Fin rat | PosInf | NegInf

text \<open>Number subtraction \<open>a - b\<close>.\<close>

fun js_sub :: "jsnum \<Rightarrow> jsnum \<Rightarrow> jsnum" where
  "js_sub (Fin a) (Fin b) = Fin (a - b)"
| "js_sub NaN _ = NaN"
| "js_sub _ NaN = NaN"
| "js_sub PosInf PosInf = NaN"
| "js_sub NegInf NegInf = NaN"
| "js_sub PosInf _ = PosInf"
| "js_sub NegInf _ = NegInf"
| "js_sub _ PosInf = NegInf"
| "js_sub _ NegInf = PosInf"

text \<open>The relational operators \<open>a < b\<close>, \<open>a > b\<close> and \<open>a >= b\<close>: false when a side is NaN.\<close>

fun js_less :: "jsnum \<Rightarrow> jsnum \<Rightarrow> bool" where
  "js_less (Fin a) (Fin b) = (a < b)"
| "js_less NaN _ = False"
| "js_less _ NaN = False"
| "js_less NegInf NegInf = False"
| "js_less NegInf _ = True"
| "js_less _ NegInf = False"
| "js_less PosInf _ = False"
| "js_less _ PosInf = True"

definition js_greater :: "jsnum \<Rightarrow> jsnum \<Rightarrow> bool" where
  "js_greater a b = js_less b a"

definition js_ge :: "jsnum \<Rightarrow> jsnum \<Rightarrow> bool" where
  "js_ge a b = (a \<noteq> NaN \<and> b \<noteq> NaN \<and> \<not> js_less a b)"

text \<open>\<open>String.prototype.toLowerCase\<close> on ASCII letters.\<close>

definition lowerChar :: "char \<Rightarrow> char" where
  "lowerChar c =
     (case map_of (zip ''ABCDEFGHIJKLMNOPQRSTUVWXYZ'' ''abcdefghijklmnopqrstuvwxyz'') c of
        None \<Rightarrow> c | Some d \<Rightarrow> d)"

definition toLowerCase :: "string \<Rightarrow> string" where
  "toLowerCase s = map lowerChar s"

text \<open>\<open>String.prototype.includes\<close>: the argument occurs as a contiguous substring.\<close>

fun startsWith :: "string \<Rightarrow> string \<Rightarrow> bool" where
  "startsWith _ [] = True"
| "startsWith [] (_ # _) = False"
| "startsWith (c # cs) (d # ds) = (c = d \<and> startsWith cs ds)"

fun includesStr :: "string \<Rightarrow> string \<Rightarrow> bool" where
  "includesStr [] t = (t = [])"
| "includesStr (c # cs) t = (startsWith (c # cs) t \<or> includesStr cs t)"

text \<open>\<open>Array.prototype.join\<close> on an array of strings.\<close>

fun join :: "string \<Rightarrow> string list \<Rightarrow> string" where
  "join sep [] = []"
| "join sep [x] = x"
| "join sep (x # y # ys) = x @ sep @ join sep (y # ys)"

subsection \<open>parseFloat\<close>

text \<open>
  \<open>parseFloat\<close> skips leading white space and reads the longest prefix that is a
  \<open>StrDecimalLiteral\<close>: an optional sign, then \<open>Infinity\<close> or decimal digits with an
  optional fraction and an optional exponent. With no such prefix the result is NaN.
\<close>

definition isWhiteSpace :: "char \<Rightarrow> bool" where
  "isWhiteSpace c = (c \<in> set [CHR '' '', CHR 0x09, CHR 0x0A, CHR 0x0B, CHR 0x0C, CHR 0x0D])"

definition isDigit :: "char \<Rightarrow> bool" where
  "isDigit c = (c \<in> set ''0123456789'')"

definition digitVal :: "char \<Rightarrow> nat" where
  "digitVal c = (case map_of (zip ''0123456789'' [0, 1, 2, 3, 4, 5, 6, 7, 8, 9]) c of
                   None \<Rightarrow> 0 | Some d \<Rightarrow> d)"

definition digitsVal :: "string \<Rightarrow> nat" where
  "digitsVal ds = foldl (\<lambda>n c. 10 * n + digitVal c) 0 ds"

definition pow10 :: "int \<Rightarrow> rat" where
  "pow10 e = (if 0 \<le> e then 10 ^ nat e else 1 / 10 ^ nat (- e))"

text \<open>The exponent part: \<open>e\<close> or \<open>E\<close>, an optional sign and at least one digit; 0 otherwise.\<close>

definition exponentPart :: "string \<Rightarrow> int" where
  "exponentPart r =
     (case r of
        [] \<Rightarrow> 0
      | c # r1 \<Rightarrow>
          if c = CHR ''e'' \<or> c = CHR ''E'' then
            (case r1 of
               [] \<Rightarrow> 0
             | s # r2 \<Rightarrow>
                 if s = CHR ''-'' then
                   (if takeWhile isDigit r2 = [] then 0
                    else - int (digitsVal (takeWhile isDigit r2)))
                 else if s = CHR ''+'' then int (digitsVal (takeWhile isDigit r2))
                 else int (digitsVal (takeWhile isDigit r1)))
          else 0)"

definition unsignedLiteral :: "string \<Rightarrow> jsnum" where
  "unsignedLiteral u =
     (if startsWith u ''Infinity'' then PosInf
      else
        let ip = takeWhile isDigit u;
            r1 = dropWhile isDigit u;
            fp = (case r1 of [] \<Rightarrow> [] | c # r \<Rightarrow>
                    if c = CHR ''.'' then takeWhile isDigit r else []);
            r2 = (case r1 of [] \<Rightarrow> [] | c # r \<Rightarrow>
                    if c = CHR ''.'' then dropWhile isDigit r else r1)
        in if ip = [] \<and> fp = [] then NaN
           else Fin (of_nat (digitsVal (ip @ fp)) * pow10 (exponentPart r2 - int (length fp))))"

definition js_neg :: "jsnum \<Rightarrow> jsnum" where
  "js_neg x = (case x of NaN \<Rightarrow> NaN | Fin a \<Rightarrow> Fin (- a) | PosInf \<Rightarrow> NegInf | NegInf \<Rightarrow> PosInf)"

definition parseFloat :: "string \<Rightarrow> jsnum" where
  "parseFloat s =
     (case dropWhile isWhiteSpace s of
        [] \<Rightarrow> NaN
      | c # u \<Rightarrow>
          if c = CHR ''-'' then js_neg (unsignedLiteral u)
          else if c = CHR ''+'' then unsignedLiteral u
          else unsignedLiteral (c # u))"

section \<open>The catalog ranker: fetchTopTokens\<close>

record BinanceTicker =
  ticker_symbol :: string
  lastPrice :: string
  quoteVolume :: string
  priceChangePercent :: string
  volume :: string

record BinancePair =
  pair_symbol :: string
  baseAsset :: string
  quoteAsset :: string
  status :: string

record PairWithVolume =
  pair :: BinancePair
  pv_volume :: jsnum
  priority :: int

text \<open>The \<open>Token\<close> objects that \<open>fetchTopTokens\<close> builds.\<close>

record Token =
  token_id :: string
  token_symbol :: string
  token_name :: string
  image :: string
  current_price :: jsnum
  market_cap :: jsnum
  market_cap_rank :: jsnum
  price_change_percentage_24h :: jsnum
  volume_24h :: jsnum
  token_quoteAsset :: string
  token_baseAsset :: string

definition MAJOR_TOKENS :: "string list" where
  "MAJOR_TOKENS =
    [''BTC'', ''ETH'', ''BNB'', ''XRP'', ''ADA'', ''DOGE'', ''MATIC'', ''SOL'', ''DOT'', ''LTC'',
     ''AVAX'', ''LINK'', ''UNI'', ''ATOM'', ''ETC'', ''XLM'', ''BCH'', ''FIL'', ''ALGO'', ''ICP'',
     ''VET'', ''MANA'', ''SAND'', ''AXS'', ''THETA'', ''XTZ'', ''EOS'', ''AAVE'', ''CAKE'', ''MKR'',
     ''SNX'', ''COMP'', ''YFI'', ''SUSHI'', ''1INCH'', ''ENJ'', ''BAT'', ''ZIL'', ''IOTA'', ''NEO'',
     ''WAVES'', ''DASH'', ''ZEC'', ''XMR'', ''QTUM'', ''ONT'', ''IOST'', ''OMG'', ''ZRX'', ''KNC'']"

text \<open>
  What \<open>await fetch(url)\<close> followed by \<open>response.json()\<close> gives: the request is rejected
  (a transport error), or there is a response with its \<open>ok\<close> flag and its parsed body;
  the body is \<open>None\<close> when \<open>json()\<close> rejects or the body has not the expected shape
  (then the first use of it raises a TypeError).
\<close>

datatype 'a fetched = Rejected | Response bool "'a option"

datatype error = NetworkFailure | Error string | TypeError | SyntaxError

text \<open>The filter of lines 44-50.\<close>

definition isUsdtPair :: "BinancePair \<Rightarrow> bool" where
  "isUsdtPair p =
     (quoteAsset p = ''USDT'' \<and> status p = ''TRADING'' \<and>
      \<not> includesStr (pair_symbol p) ''DOWN'' \<and> \<not> includesStr (pair_symbol p) ''UP'')"

text \<open>\<open>new Map(tickerData.map(t => [t.symbol, t]))\<close>: a later entry replaces an earlier one.\<close>

definition tickerMapOf :: "BinanceTicker list \<Rightarrow> (string \<rightharpoonup> BinanceTicker)" where
  "tickerMapOf tickerData = map_of (rev (map (\<lambda>t. (ticker_symbol t, t)) tickerData))"

text \<open>
  \<open>ticker?.field || '0'\<close>: the field of the ticker, or \<open>'0'\<close> when there is no ticker
  or the field is the empty string.
\<close>

definition orZero :: "BinanceTicker option \<Rightarrow> (BinanceTicker \<Rightarrow> string) \<Rightarrow> string" where
  "orZero ticker field =
     (case ticker of None \<Rightarrow> ''0'' | Some t \<Rightarrow> if field t = [] then ''0'' else field t)"

text \<open>The first \<open>map\<close> callback (lines 63-73).\<close>

definition withVolume :: "(string \<rightharpoonup> BinanceTicker) \<Rightarrow> BinancePair \<Rightarrow> PairWithVolume" where
  "withVolume tickerMap p =
     \<lparr> pair = p,
       pv_volume = parseFloat (orZero (tickerMap (pair_symbol p)) volume),
       priority = (if baseAsset p \<in> set MAJOR_TOKENS then 1 else 0) \<rparr>"

text \<open>The comparator of lines 74-81.\<close>

definition compareFn :: "PairWithVolume \<Rightarrow> PairWithVolume \<Rightarrow> jsnum" where
  "compareFn a b =
     (if priority a \<noteq> priority b then Fin (of_int (priority b - priority a))
      else js_sub (pv_volume b) (pv_volume a))"

text \<open>
  \<open>Array.prototype.sort\<close> with a comparator. An element \<open>x\<close> goes before \<open>y\<close> when the
  comparator's result is below zero; a NaN result counts as zero. The sort is stable.
  It is modelled as an insertion sort that places each element, in array order, behind
  the elements already placed that it does not go before. For a consistent comparator
  every stable sort gives this result. For an inconsistent one (here: when a volume is
  NaN) JavaScript leaves the order to the engine, and an engine may return another
  permutation than this one; nothing below is stated about the order in that case.
\<close>

definition goesBefore :: "('a \<Rightarrow> 'a \<Rightarrow> jsnum) \<Rightarrow> 'a \<Rightarrow> 'a \<Rightarrow> bool" where
  "goesBefore cmp x y = js_less (cmp x y) (Fin 0)"

fun insertSorted :: "('a \<Rightarrow> 'a \<Rightarrow> jsnum) \<Rightarrow> 'a \<Rightarrow> 'a list \<Rightarrow> 'a list" where
  "insertSorted cmp x [] = [x]"
| "insertSorted cmp x (y # ys) =
     (if goesBefore cmp x y then x # y # ys else y # insertSorted cmp x ys)"

definition sortBy :: "('a \<Rightarrow> 'a \<Rightarrow> jsnum) \<Rightarrow> 'a list \<Rightarrow> 'a list" where
  "sortBy cmp xs = foldl (\<lambda>acc x. insertSorted cmp x acc) [] xs"

text \<open>
  \<open>Array.prototype.slice(0, end)\<close> for an integer \<open>end\<close>: a negative \<open>end\<close> counts from
  the end of the array.
\<close>

definition slice0 :: "int \<Rightarrow> 'a list \<Rightarrow> 'a list" where
  "slice0 end xs =
     (let len = int (length xs);
          final = (if end < 0 then max (len + end) 0 else min end len)
      in take (nat final) xs)"

text \<open>The second \<open>map\<close> callback (lines 86-102).\<close>

definition toToken :: "(string \<rightharpoonup> BinanceTicker) \<Rightarrow> BinancePair \<Rightarrow> Token" where
  "toToken tickerMap p =
     (let ticker = tickerMap (pair_symbol p) in
      \<lparr> token_id = pair_symbol p,
        token_symbol = baseAsset p,
        token_name = baseAsset p,
        image = ''https://cryptologos.cc/logos/'' @ toLowerCase (baseAsset p) @ ''-logo.png'',
        current_price = parseFloat (orZero ticker lastPrice),
        market_cap = parseFloat (orZero ticker quoteVolume),
        market_cap_rank = Fin 0,
        price_change_percentage_24h = parseFloat (orZero ticker priceChangePercent),
        volume_24h = parseFloat (orZero ticker volume),
        token_quoteAsset = quoteAsset p,
        token_baseAsset = baseAsset p \<rparr>)"

text \<open>Lines 62-102, once both responses are there.\<close>

definition rankTokens :: "int \<Rightarrow> BinancePair list \<Rightarrow> BinanceTicker list \<Rightarrow> Token list" where
  "rankTokens limit symbols tickerData =
     (let usdtPairs = filter isUsdtPair symbols;
          tickerMap = tickerMapOf tickerData;
          sortedPairs = slice0 limit (sortBy compareFn (map (withVolume tickerMap) usdtPairs))
      in map (\<lambda>pv. toToken tickerMap (pair pv)) sortedPairs)"

text \<open>
  The body of the \<open>try\<close> block. The ticker request is only made when the catalog
  request has succeeded; \<open>Inl\<close> is a raised exception.
\<close>

definition fetchTopTokens_try ::
  "int \<Rightarrow> BinancePair list fetched \<Rightarrow> BinanceTicker list fetched \<Rightarrow> error + Token list" where
  "fetchTopTokens_try limit response tickerResponse =
     (case response of
        Rejected \<Rightarrow> Inl NetworkFailure
      | Response ok body \<Rightarrow>
          if \<not> ok then Inl (Error ''Failed to fetch exchange info from Binance'')
          else
            (case body of
               None \<Rightarrow> Inl TypeError
             | Some symbols \<Rightarrow>
                 (case tickerResponse of
                    Rejected \<Rightarrow> Inl NetworkFailure
                  | Response tok tbody \<Rightarrow>
                      if \<not> tok then Inl (Error ''Failed to fetch ticker data from Binance'')
                      else
                        (case tbody of
                           None \<Rightarrow> Inl TypeError
                         | Some tickerData \<Rightarrow> Inr (rankTokens limit symbols tickerData)))))"

text \<open>
  \<open>fetchTopTokens\<close>: the parameter defaults to 300 when absent, and the \<open>catch\<close> block
  turns every exception into the empty array.
\<close>

definition fetchTopTokens ::
  "int option \<Rightarrow> BinancePair list fetched \<Rightarrow> BinanceTicker list fetched \<Rightarrow> error + Token list" where
  "fetchTopTokens limit response tickerResponse =
     (case fetchTopTokens_try (case limit of None \<Rightarrow> 300 | Some l \<Rightarrow> l) response tickerResponse of
        Inl e \<Rightarrow> Inr []
      | Inr tokens \<Rightarrow> Inr tokens)"

section \<open>The stream handle: initializeWebSocket and closeWebSocket\<close>

subsection \<open>Values that JSON.parse returns\<close>

text \<open>
  The members of an object are kept in the order of the text; for a repeated key the
  last member is the property.
\<close>

datatype jsval =
  JUndefined | JNull | JBool bool | JNum jsnum | JStr string
  | JArr "jsval list" | JObj "(string \<times> jsval) list"

text \<open>
  Reading the property \<open>v.k\<close>, for the names the message handler reads (\<open>data\<close>,
  \<open>s\<close>, \<open>c\<close>): a TypeError on \<open>undefined\<close> and \<open>null\<close>, the own property of an
  object, and \<open>undefined\<close> elsewhere, since no built-in prototype has these names.
\<close>

definition getProp :: "jsval \<Rightarrow> string \<Rightarrow> error + jsval" where
  "getProp v k =
     (case v of
        JUndefined \<Rightarrow> Inl TypeError
      | JNull \<Rightarrow> Inl TypeError
      | JObj members \<Rightarrow> Inr (case map_of (rev members) k of None \<Rightarrow> JUndefined | Some x \<Rightarrow> x)
      | _ \<Rightarrow> Inr JUndefined)"

text \<open>The conversion to a boolean that \<open>if (v)\<close> makes.\<close>

definition truthy :: "jsval \<Rightarrow> bool" where
  "truthy v =
     (case v of
        JUndefined \<Rightarrow> False
      | JNull \<Rightarrow> False
      | JBool b \<Rightarrow> b
      | JNum n \<Rightarrow> n \<noteq> NaN \<and> n \<noteq> Fin 0
      | JStr s \<Rightarrow> s \<noteq> []
      | JArr xs \<Rightarrow> True
      | JObj members \<Rightarrow> True)"

text \<open>
  \<open>parseFloat(v)\<close> on a value that need not be a string: the value is converted to a
  string first. A number prints as a literal that reads back as the same number;
  \<open>undefined\<close>, \<open>null\<close>, \<open>true\<close>, \<open>false\<close> and \<open>[object Object]\<close> have no numeric
  prefix; an array prints its elements separated by commas, so only its first element
  is read, and the empty array prints as the empty string.
\<close>

fun parseFloatVal :: "jsval \<Rightarrow> jsnum" where
  "parseFloatVal (JStr s) = parseFloat s"
| "parseFloatVal (JNum n) = n"
| "parseFloatVal JUndefined = NaN"
| "parseFloatVal JNull = NaN"
| "parseFloatVal (JBool b) = NaN"
| "parseFloatVal (JObj members) = NaN"
| "parseFloatVal (JArr []) = NaN"
| "parseFloatVal (JArr (x # xs)) = parseFloatVal x"

subsection \<open>The state: the module variable, the sockets, the events\<close>

text \<open>
  A WebSocket object is its URL and whether the connection has ended (\<open>close()\<close> was
  called on it, or the peer or the network ended it). The sockets ever created are kept in
  a list; a handle is an index into it. The module variable \<open>ws\<close> holds a handle or
  \<open>null\<close>. \<open>hasWindow\<close> says whether \<open>typeof window !== 'undefined'\<close>. The trace
  records, in order, the calls of \<open>close()\<close>, the constructions of a WebSocket and the
  events passed to \<open>window.dispatchEvent\<close>.
\<close>

record socket =
  url :: string
  closed :: bool

record priceUpdate =
  pu_symbol :: jsval
  pu_price :: jsnum

datatype effect =
  SocketClose nat | SocketOpen nat string | DispatchEvent string priceUpdate

record world =
  ws :: "nat option"
  sockets :: "socket list"
  hasWindow :: bool
  trace :: "effect list"

definition initialWorld :: "bool \<Rightarrow> world" where
  "initialWorld win = \<lparr> ws = None, sockets = [], hasWindow = win, trace = [] \<rparr>"

text \<open>The connection of socket \<open>h\<close> ends.\<close>

definition markClosed :: "nat \<Rightarrow> world \<Rightarrow> world" where
  "markClosed h w = w\<lparr> sockets := (sockets w)[h := (sockets w ! h)\<lparr> closed := True \<rparr>] \<rparr>"

text \<open>The call \<open>socket.close()\<close>.\<close>

definition socketClose :: "nat \<Rightarrow> world \<Rightarrow> world" where
  "socketClose h w = (markClosed h w)\<lparr> trace := trace w @ [SocketClose h] \<rparr>"

text \<open>
  \<open>new WebSocket(u)\<close>, where the environment has WebSocket (a module variable that
  holds a socket presupposes it). The constructor parses the URL and raises a SyntaxError when
  the URL has a fragment, that is, when it contains \<open>#\<close>; nothing is created then.
  Behind the fixed prefix used here the text is the query of the URL, where the parser
  accepts every other character. Otherwise there is a new socket, returned by its
  handle; its \<open>url\<close> is the string given to the constructor.
\<close>

definition newWebSocket :: "string \<Rightarrow> world \<Rightarrow> (error + nat) \<times> world" where
  "newWebSocket u w =
     (if CHR ''#'' \<in> set u then (Inl SyntaxError, w)
      else
        (Inr (length (sockets w)),
         w\<lparr> sockets := sockets w @ [\<lparr> url = u, closed = False \<rparr>],
            trace := trace w @ [SocketOpen (length (sockets w)) u] \<rparr>))"

text \<open>
  Lines 129-157, apart from the handler, which is \<open>onmessage\<close> below. The result is
  the returned handle, or the exception of the constructor, which leaves the function
  after \<open>ws.close()\<close> and before the assignment to \<open>ws\<close>.
\<close>

definition initializeWebSocket :: "string list \<Rightarrow> world \<Rightarrow> (error + nat) \<times> world" where
  "initializeWebSocket symbols w =
     (let w1 = (case ws w of Some old \<Rightarrow> socketClose old w | None \<Rightarrow> w);
          streams = join ''/'' (map (\<lambda>symbol. toLowerCase symbol @ ''@ticker'') symbols);
          (r, w2) = newWebSocket (''wss://stream.binance.com:9443/stream?streams='' @ streams) w1
      in case r of Inl e \<Rightarrow> (Inl e, w2) | Inr h \<Rightarrow> (Inr h, w2\<lparr> ws := Some h \<rparr>))"

text \<open>Lines 159-164.\<close>

definition closeWebSocket :: "world \<Rightarrow> world" where
  "closeWebSocket w =
     (case ws w of Some h \<Rightarrow> (socketClose h w)\<lparr> ws := None \<rparr> | None \<Rightarrow> w)"

text \<open>
  The message handler of lines 140-154. Its argument is what \<open>JSON.parse(event.data)\<close>
  returns, \<open>None\<close> when that raises a SyntaxError. \<open>Inl\<close> is an exception that leaves
  the handler; the state is then as before.
\<close>

definition onmessage :: "jsval option \<Rightarrow> world \<Rightarrow> error + world" where
  "onmessage parsed w =
     (case parsed of
        None \<Rightarrow> Inl SyntaxError
      | Some data \<Rightarrow>
          (case getProp data ''data'' of
             Inl e \<Rightarrow> Inl e
           | Inr payload \<Rightarrow>
               if truthy payload then
                 if hasWindow w then
                   (case getProp payload ''s'' of
                      Inl e \<Rightarrow> Inl e
                    | Inr s \<Rightarrow>
                        (case getProp payload ''c'' of
                           Inl e \<Rightarrow> Inl e
                         | Inr c \<Rightarrow>
                             Inr (w\<lparr> trace := trace w @
                                    [DispatchEvent ''priceUpdate''
                                       \<lparr> pu_symbol = s, pu_price = parseFloatVal c \<rparr>] \<rparr>)))
                 else Inr w
               else Inr w))"

text \<open>
  What can happen to the state: a call of one of the two functions (for
  \<open>initializeWebSocket\<close> whether it returns or raises), a message that arrives on a
  socket whose connection has not ended, and the end of a connection from outside the
  module. \<open>run\<close> performs a sequence of these from the initial state.
\<close>

datatype action =
  Open "string list" | Close | Message nat "jsval option" | Drop nat

definition step :: "world \<Rightarrow> action \<Rightarrow> world" where
  "step w a =
     (case a of
        Open symbols \<Rightarrow> snd (initializeWebSocket symbols w)
      | Close \<Rightarrow> closeWebSocket w
      | Message h parsed \<Rightarrow>
          if h < length (sockets w) \<and> \<not> closed (sockets w ! h) then
            (case onmessage parsed w of Inl e \<Rightarrow> w | Inr w' \<Rightarrow> w')
          else w
      | Drop h \<Rightarrow> markClosed h w)"

definition run :: "bool \<Rightarrow> action list \<Rightarrow> world" where
  "run win acts = foldl step (initialWorld win) acts"

text \<open>The handles of the sockets whose connection has not ended.\<close>

definition liveSockets :: "world \<Rightarrow> nat list" where
  "liveSockets w = filter (\<lambda>h. \<not> closed (sockets w ! h)) [0..<length (sockets w)]"

text \<open>Every socket whose connection has not ended is the one that \<open>ws\<close> holds.\<close>

definition wsInv :: "world \<Rightarrow> bool" where
  "wsInv w = (\<forall>h < length (sockets w). \<not> closed (sockets w ! h) \<longrightarrow> ws w = Some h)"

section \<open>Formatting: formatPercentage\<close>

definition digitChar :: "nat \<Rightarrow> char" where
  "digitChar d = ''0123456789'' ! d"

fun decimalDigits :: "nat \<Rightarrow> string" where
  "decimalDigits n =
     (if n < 10 then [digitChar n] else decimalDigits (n div 10) @ [digitChar (n mod 10)])"

declare decimalDigits.simps [simp del]

text \<open>
  \<open>Number.prototype.toFixed(f)\<close>. A value that is not finite prints as its name. For a
  finite one the sign is split off, and from ten to the power 21 on the result is that of the
  conversion of a Number to a string, which is a parameter here. Otherwise \<open>n\<close> is the
  integer nearest to the value times ten to the power \<open>f\<close>, the larger one of two; its digits are
  padded with zeros to \<open>f + 1\<close> places and the point goes before the last \<open>f\<close>.
\<close>

definition toFixed :: "(rat \<Rightarrow> string) \<Rightarrow> nat \<Rightarrow> jsnum \<Rightarrow> string" where
  "toFixed numberToString f x =
     (case x of
        NaN \<Rightarrow> ''NaN''
      | PosInf \<Rightarrow> ''Infinity''
      | NegInf \<Rightarrow> ''-Infinity''
      | Fin r \<Rightarrow>
          let s = (if r < 0 then ''-'' else '''');
              a = (if r < 0 then - r else r)
          in if 10 ^ 21 \<le> a then s @ numberToString a
             else
               let n = nat \<lfloor>a * 10 ^ f + 1 / 2\<rfloor>;
                   m = (if n = 0 then ''0'' else decimalDigits n);
                   z = (if length m \<le> f then replicate (f + 1 - length m) (CHR ''0'') @ m else m);
                   k = length z
               in if f \<noteq> 0 then s @ take (k - f) z @ ''.'' @ drop (k - f) z else s @ m)"

text \<open>Lines 240-244.\<close>

definition formatPercentage :: "(rat \<Rightarrow> string) \<Rightarrow> jsnum \<Rightarrow> string" where
  "formatPercentage numberToString percentage =
     (if js_greater percentage (Fin 0)
      then ''+'' @ toFixed numberToString 2 percentage @ ''%''
      else toFixed numberToString 2 percentage @ ''%'')"

section \<open>Notions used in the statements\<close>

text \<open>A request has failed: it was rejected, or the response has not a success status.\<close>

definition failed :: "'a fetched \<Rightarrow> bool" where
  "failed r = (case r of Rejected \<Rightarrow> True | Response ok body \<Rightarrow> \<not> ok)"

text \<open>The order that the comparator stands for: higher priority first, then higher volume.\<close>

definition rankedBefore :: "PairWithVolume \<Rightarrow> PairWithVolume \<Rightarrow> bool" where
  "rankedBefore a b =
     (priority b < priority a \<or> (priority a = priority b \<and> js_ge (pv_volume a) (pv_volume b)))"

section \<open>Example data\<close>

definition ex_pairs :: "BinancePair list" where
  "ex_pairs =
     [\<lparr> pair_symbol = ''FOOUSDT'', baseAsset = ''FOO'', quoteAsset = ''USDT'', status = ''TRADING'' \<rparr>,
      \<lparr> pair_symbol = ''BARUSDT'', baseAsset = ''BAR'', quoteAsset = ''USDT'', status = ''TRADING'' \<rparr>,
      \<lparr> pair_symbol = ''BTCUSDT'', baseAsset = ''BTC'', quoteAsset = ''USDT'', status = ''TRADING'' \<rparr>,
      \<lparr> pair_symbol = ''ETHBTC'', baseAsset = ''ETH'', quoteAsset = ''BTC'', status = ''TRADING'' \<rparr>,
      \<lparr> pair_symbol = ''ETHUSDT'', baseAsset = ''ETH'', quoteAsset = ''USDT'', status = ''TRADING'' \<rparr>,
      \<lparr> pair_symbol = ''BNBUPUSDT'', baseAsset = ''BNBUP'', quoteAsset = ''USDT'', status = ''TRADING'' \<rparr>,
      \<lparr> pair_symbol = ''LTCUSDT'', baseAsset = ''LTC'', quoteAsset = ''USDT'', status = ''BREAK'' \<rparr>]"

definition ex_tickers :: "BinanceTicker list" where
  "ex_tickers =
     [\<lparr> ticker_symbol = ''FOOUSDT'', lastPrice = ''1'', quoteVolume = ''5'',
        priceChangePercent = ''0.5'', volume = ''5'' \<rparr>,
      \<lparr> ticker_symbol = ''BARUSDT'', lastPrice = ''2'', quoteVolume = ''40'',
        priceChangePercent = ''-1.5'', volume = ''20'' \<rparr>,
      \<lparr> ticker_symbol = ''BTCUSDT'', lastPrice = ''65000.12'', quoteVolume = ''650001.2'',
        priceChangePercent = ''2'', volume = ''10'' \<rparr>,
      \<lparr> ticker_symbol = ''ETHUSDT'', lastPrice = ''3000'', quoteVolume = ''9000'',
        priceChangePercent = ''0'', volume = ''3'' \<rparr>]"

text \<open>
  Tickers with an empty and an unreadable last price; BTCUSDT and ETHUSDT have no ticker.
\<close>

definition ex_bad_tickers :: "BinanceTicker list" where
  "ex_bad_tickers =
     [\<lparr> ticker_symbol = ''FOOUSDT'', lastPrice = '''', quoteVolume = ''5'',
        priceChangePercent = ''0.5'', volume = ''5'' \<rparr>,
      \<lparr> ticker_symbol = ''BARUSDT'', lastPrice = ''n/a'', quoteVolume = ''40'',
        priceChangePercent = ''-1.5'', volume = ''20'' \<rparr>]"

text \<open>Tickers with an unreadable volume, for a catalog of FOOUSDT and BARUSDT.\<close>

definition ex_nan_tickers :: "BinanceTicker list" where
  "ex_nan_tickers =
     [\<lparr> ticker_symbol = ''FOOUSDT'', lastPrice = ''1'', quoteVolume = ''5'',
        priceChangePercent = ''0.5'', volume = ''abc'' \<rparr>,
      \<lparr> ticker_symbol = ''BARUSDT'', lastPrice = ''2'', quoteVolume = ''40'',
        priceChangePercent = ''-1.5'', volume = ''20'' \<rparr>]"

definition ex_tokens :: "Token list" where
  "ex_tokens =
     [\<lparr> token_id = ''BTCUSDT'', token_symbol = ''BTC'', token_name = ''BTC'',
        image = ''https://cryptologos.cc/logos/btc-logo.png'',
        current_price = Fin 65000.12, market_cap = Fin 650001.2, market_cap_rank = Fin 0,
        price_change_percentage_24h = Fin 2, volume_24h = Fin 10,
        token_quoteAsset = ''USDT'', token_baseAsset = ''BTC'' \<rparr>,
      \<lparr> token_id = ''ETHUSDT'', token_symbol = ''ETH'', token_name = ''ETH'',
        image = ''https://cryptologos.cc/logos/eth-logo.png'',
        current_price = Fin 3000, market_cap = Fin 9000, market_cap_rank = Fin 0,
        price_change_percentage_24h = Fin 0, volume_24h = Fin 3,
        token_quoteAsset = ''USDT'', token_baseAsset = ''ETH'' \<rparr>,
      \<lparr> token_id = ''BARUSDT'', token_symbol = ''BAR'', token_name = ''BAR'',
        image = ''https://cryptologos.cc/logos/bar-logo.png'',
        current_price = Fin 2, market_cap = Fin 40, market_cap_rank = Fin 0,
        price_change_percentage_24h = Fin (- 1.5), volume_24h = Fin 20,
        token_quoteAsset = ''USDT'', token_baseAsset = ''BAR'' \<rparr>,
      \<lparr> token_id = ''FOOUSDT'', token_symbol = ''FOO'', token_name = ''FOO'',
        image = ''https://cryptologos.cc/logos/foo-logo.png'',
        current_price = Fin 1, market_cap = Fin 5, market_cap_rank = Fin 0,
        price_change_percentage_24h = Fin 0.5, volume_24h = Fin 5,
        token_quoteAsset = ''USDT'', token_baseAsset = ''FOO'' \<rparr>]"

definition ex_bad_tokens :: "Token list" where
  "ex_bad_tokens =
     [\<lparr> token_id = ''BTCUSDT'', token_symbol = ''BTC'', token_name = ''BTC'',
        image = ''https://cryptologos.cc/logos/btc-logo.png'',
        current_price = Fin 0, market_cap = Fin 0, market_cap_rank = Fin 0,
        price_change_percentage_24h = Fin 0, volume_24h = Fin 0,
        token_quoteAsset = ''USDT'', token_baseAsset = ''BTC'' \<rparr>,
      \<lparr> token_id = ''ETHUSDT'', token_symbol = ''ETH'', token_name = ''ETH'',
        image = ''https://cryptologos.cc/logos/eth-logo.png'',
        current_price = Fin 0, market_cap = Fin 0, market_cap_rank = Fin 0,
        price_change_percentage_24h = Fin 0, volume_24h = Fin 0,
        token_quoteAsset = ''USDT'', token_baseAsset = ''ETH'' \<rparr>,
      \<lparr> token_id = ''BARUSDT'', token_symbol = ''BAR'', token_name = ''BAR'',
        image = ''https://cryptologos.cc/logos/bar-logo.png'',
        current_price = NaN, market_cap = Fin 40, market_cap_rank = Fin 0,
        price_change_percentage_24h = Fin (- 1.5), volume_24h = Fin 20,
        token_quoteAsset = ''USDT'', token_baseAsset = ''BAR'' \<rparr>,
      \<lparr> token_id = ''FOOUSDT'', token_symbol = ''FOO'', token_name = ''FOO'',
        image = ''https://cryptologos.cc/logos/foo-logo.png'',
        current_price = Fin 0, market_cap = Fin 5, market_cap_rank = Fin 0,
        price_change_percentage_24h = Fin 0.5, volume_24h = Fin 5,
        token_quoteAsset = ''USDT'', token_baseAsset = ''FOO'' \<rparr>]"

definition ex_nan_tokens :: "Token list" where
  "ex_nan_tokens =
     [\<lparr> token_id = ''FOOUSDT'', token_symbol = ''FOO'', token_name = ''FOO'',
        image = ''https://cryptologos.cc/logos/foo-logo.png'',
        current_price = Fin 1, market_cap = Fin 5, market_cap_rank = Fin 0,
        price_change_percentage_24h = Fin 0.5, volume_24h = NaN,
        token_quoteAsset = ''USDT'', token_baseAsset = ''FOO'' \<rparr>,
      \<lparr> token_id = ''BARUSDT'', token_symbol = ''BAR'', token_name = ''BAR'',
        image = ''https://cryptologos.cc/logos/bar-logo.png'',
        current_price = Fin 2, market_cap = Fin 40, market_cap_rank = Fin 0,
        price_change_percentage_24h = Fin (- 1.5), volume_24h = Fin 20,
        token_quoteAsset = ''USDT'', token_baseAsset = ''BAR'' \<rparr>]"



text \<open>The state after \<open>initializeWebSocket(['BTCUSDT', 'ETHUSDT'])\<close> and
  \<open>initializeWebSocket(['SOLUSDT'])\<close> in a browser.\<close>

definition ex_world :: world where
  "ex_world =
     \<lparr> ws = Some 1,
       sockets =
         [\<lparr> url = ''wss://stream.binance.com:9443/stream?streams=btcusdt@ticker/ethusdt@ticker'',
            closed = True \<rparr>,
          \<lparr> url = ''wss://stream.binance.com:9443/stream?streams=solusdt@ticker'',
            closed = False \<rparr>],
       hasWindow = True,
       trace =
         [SocketOpen 0 ''wss://stream.binance.com:9443/stream?streams=btcusdt@ticker/ethusdt@ticker'',
          SocketClose 0,
          SocketOpen 1 ''wss://stream.binance.com:9443/stream?streams=solusdt@ticker''] \<rparr>"


text \<open>The state after \<open>initializeWebSocket(['BTCUSDT', 'ETHUSDT'])\<close> and a call
  \<open>initializeWebSocket(['BTC#USDT'])\<close> that raised.\<close>

definition ex_world_raised :: world where
  "ex_world_raised =
     \<lparr> ws = Some 0,
       sockets =
         [\<lparr> url = ''wss://stream.binance.com:9443/stream?streams=btcusdt@ticker/ethusdt@ticker'',
            closed = True \<rparr>],
       hasWindow = True,
       trace =
         [SocketOpen 0 ''wss://stream.binance.com:9443/stream?streams=btcusdt@ticker/ethusdt@ticker'',
          SocketClose 0] \<rparr>"

section \<open>Facts about strings and sorting\<close>

lemma startsWith_iff: "startsWith s t \<longleftrightarrow> (\<exists>b. s = t @ b)"
  by (induction s t rule: startsWith.induct) auto

lemma includesStr_iff: "includesStr s t \<longleftrightarrow> (\<exists>a b. s = a @ t @ b)"
proof (induction s)
  case Nil
  then show ?case by simp
next
  case (Cons c cs)
  show ?case
  proof
    assume "includesStr (c # cs) t"
    then consider "startsWith (c # cs) t" | "includesStr cs t" by auto
    then show "\<exists>a b. c # cs = a @ t @ b"
    proof cases
      case 1
      then obtain b where "c # cs = t @ b" by (auto simp: startsWith_iff)
      then have "c # cs = [] @ t @ b" by simp
      then show ?thesis by blast
    next
      case 2
      then obtain a b where "cs = a @ t @ b" using Cons.IH by blast
      then have "c # cs = (c # a) @ t @ b" by simp
      then show ?thesis by blast
    qed
  next
    assume "\<exists>a b. c # cs = a @ t @ b"
    then obtain a b where ab: "c # cs = a @ t @ b" by blast
    show "includesStr (c # cs) t"
    proof (cases a)
      case Nil
      then have "startsWith (c # cs) t" using ab by (auto simp: startsWith_iff)
      then show ?thesis by simp
    next
      case (Cons a1 as)
      then have "cs = as @ t @ b" using ab by simp
      then have "includesStr cs t" using Cons.IH by blast
      then show ?thesis by simp
    qed
  qed
qed

lemma mset_insertSorted: "mset (insertSorted cmp x ys) = add_mset x (mset ys)"
  by (induction ys) auto

lemma mset_foldl_insertSorted:
  "mset (foldl (\<lambda>acc x. insertSorted cmp x acc) acc xs) = mset acc + mset xs"
  by (induction xs arbitrary: acc) (auto simp: mset_insertSorted)

lemma mset_sortBy: "mset (sortBy cmp xs) = mset xs"
  by (simp add: sortBy_def mset_foldl_insertSorted)

lemma set_sortBy: "set (sortBy cmp xs) = set xs"
  using mset_sortBy [of cmp xs] by (metis set_mset_mset)

lemma length_sortBy: "length (sortBy cmp xs) = length xs"
  using mset_sortBy [of cmp xs] by (metis size_mset)

lemma distinct_map_sortBy: "distinct (map f (sortBy cmp xs)) = distinct (map f xs)"
proof -
  have "mset (map f (sortBy cmp xs)) = mset (map f xs)"
    by (simp add: mset_sortBy)
  then show ?thesis by (rule mset_eq_imp_distinct_iff)
qed

lemma set_slice0: "set (slice0 e xs) \<subseteq> set xs"
  by (auto simp: slice0_def Let_def dest: in_set_takeD)

lemma length_slice0: "0 \<le> e \<Longrightarrow> int (length (slice0 e xs)) \<le> e"
  by (auto simp: slice0_def Let_def)

lemma sorted_wrt_slice0: "sorted_wrt R xs \<Longrightarrow> sorted_wrt R (slice0 e xs)"
  by (simp add: slice0_def Let_def sorted_wrt_take)

lemma sorted_wrt_insertSorted:
  assumes trans: "\<And>a b c. a \<in> A \<Longrightarrow> b \<in> A \<Longrightarrow> c \<in> A \<Longrightarrow> R a b \<Longrightarrow> R b c \<Longrightarrow> R a c"
    and before: "\<And>a b. a \<in> A \<Longrightarrow> b \<in> A \<Longrightarrow> goesBefore cmp a b \<Longrightarrow> R a b"
    and behind: "\<And>a b. a \<in> A \<Longrightarrow> b \<in> A \<Longrightarrow> \<not> goesBefore cmp a b \<Longrightarrow> R b a"
    and x: "x \<in> A" and ys: "set ys \<subseteq> A" and sorted: "sorted_wrt R ys"
  shows "sorted_wrt R (insertSorted cmp x ys)"
  using ys sorted
proof (induction ys)
  case Nil
  then show ?case by simp
next
  case (Cons y ys)
  have yA: "y \<in> A" and ysA: "set ys \<subseteq> A" using Cons.prems(1) by auto
  show ?case
  proof (cases "goesBefore cmp x y")
    case True
    then have xy: "R x y" using before x yA by blast
    have "R x z" if "z \<in> set ys" for z
    proof -
      have "R y z" using Cons.prems(2) that by auto
      then show ?thesis using trans [OF x yA _ xy] that ysA by blast
    qed
    then show ?thesis using True xy Cons.prems(2) by auto
  next
    case False
    then have yx: "R y x" using behind x yA by blast
    have "sorted_wrt R (insertSorted cmp x ys)"
      using Cons.IH ysA Cons.prems(2) by simp
    moreover have "R y z" if "z \<in> set (insertSorted cmp x ys)" for z
    proof -
      have "z = x \<or> z \<in> set ys"
        using that mset_insertSorted [of cmp x ys] by (metis insert_iff set_mset_add_mset_insert set_mset_mset)
      then show ?thesis using yx Cons.prems(2) by auto
    qed
    ultimately show ?thesis using False by simp
  qed
qed

lemma sorted_wrt_sortBy:
  assumes trans: "\<And>a b c. a \<in> A \<Longrightarrow> b \<in> A \<Longrightarrow> c \<in> A \<Longrightarrow> R a b \<Longrightarrow> R b c \<Longrightarrow> R a c"
    and before: "\<And>a b. a \<in> A \<Longrightarrow> b \<in> A \<Longrightarrow> goesBefore cmp a b \<Longrightarrow> R a b"
    and behind: "\<And>a b. a \<in> A \<Longrightarrow> b \<in> A \<Longrightarrow> \<not> goesBefore cmp a b \<Longrightarrow> R b a"
    and xs: "set xs \<subseteq> A"
  shows "sorted_wrt R (sortBy cmp xs)"
proof -
  have "sorted_wrt R (foldl (\<lambda>acc x. insertSorted cmp x acc) acc xs)"
    if "set acc \<subseteq> A" "sorted_wrt R acc" for acc
    using xs that
  proof (induction xs arbitrary: acc)
    case Nil
    then show ?case by simp
  next
    case (Cons x xs)
    have xA: "x \<in> A" using Cons.prems(1) by simp
    have 1: "sorted_wrt R (insertSorted cmp x acc)"
      using sorted_wrt_insertSorted [of A R cmp x acc] trans before behind xA Cons.prems(2,3)
      by blast
    have "set (insertSorted cmp x acc) = insert x (set acc)"
      using mset_insertSorted [of cmp x acc] by (metis set_mset_add_mset_insert set_mset_mset)
    then have 2: "set (insertSorted cmp x acc) \<subseteq> A" using xA Cons.prems(2) by simp
    show ?case using Cons.IH [OF _ 2 1] Cons.prems(1) by simp
  qed
  then show ?thesis by (simp add: sortBy_def)
qed

section \<open>Facts about the ranker\<close>

lemmas eval_defs = rankTokens_def isUsdtPair_def tickerMapOf_def withVolume_def MAJOR_TOKENS_def
  sortBy_def compareFn_def goesBefore_def slice0_def toToken_def toLowerCase_def lowerChar_def
  orZero_def parseFloat_def unsignedLiteral_def isWhiteSpace_def isDigit_def digitsVal_def
  digitVal_def pow10_def exponentPart_def js_neg_def Let_def

lemma fetchTopTokens_cases:
  assumes "fetchTopTokens limit response tickerResponse = Inr tokens"
  shows "tokens = [] \<or>
         (\<exists>symbols tickerData.
            response = Response True (Some symbols) \<and>
            tickerResponse = Response True (Some tickerData) \<and>
            tokens = rankTokens (case limit of None \<Rightarrow> 300 | Some l \<Rightarrow> l) symbols tickerData)"
proof (cases "fetchTopTokens_try (case limit of None \<Rightarrow> 300 | Some l \<Rightarrow> l) response tickerResponse")
  case (Inl e)
  then show ?thesis using assms by (simp add: fetchTopTokens_def)
next
  case (Inr ts)
  then have ts: "ts = tokens" using assms by (simp add: fetchTopTokens_def)
  from Inr obtain ok body where r: "response = Response ok body"
    by (cases response) (simp_all add: fetchTopTokens_try_def)
  from Inr r have ok: "ok" by (cases ok) (simp_all add: fetchTopTokens_try_def)
  from Inr r ok obtain symbols where body: "body = Some symbols"
    by (cases body) (simp_all add: fetchTopTokens_try_def)
  from Inr r ok body obtain tok tbody where tr: "tickerResponse = Response tok tbody"
    by (cases tickerResponse) (simp_all add: fetchTopTokens_try_def)
  from Inr r ok body tr have tok: "tok" by (cases tok) (simp_all add: fetchTopTokens_try_def)
  from Inr r ok body tr tok obtain tickerData where tbody: "tbody = Some tickerData"
    by (cases tbody) (simp_all add: fetchTopTokens_try_def)
  from Inr r ok body tr tok tbody
  have "ts = rankTokens (case limit of None \<Rightarrow> 300 | Some l \<Rightarrow> l) symbols tickerData"
    by (simp add: fetchTopTokens_try_def)
  then show ?thesis using ts r ok body tr tok tbody by simp
qed

lemma fetchTopTokens_ok:
  "fetchTopTokens limit (Response True (Some symbols)) (Response True (Some tickerData)) =
     Inr (rankTokens (case limit of None \<Rightarrow> 300 | Some l \<Rightarrow> l) symbols tickerData)"
  by (simp add: fetchTopTokens_def fetchTopTokens_try_def)

lemma pair_withVolume: "pair (withVolume tm p) = p"
  by (simp add: withVolume_def)

lemma rankTokens_elem:
  assumes "t \<in> set (rankTokens l symbols tickerData)"
  obtains p where "p \<in> set symbols" and "isUsdtPair p"
    and "t = toToken (tickerMapOf tickerData) p"
proof -
  let ?tm = "tickerMapOf tickerData"
  let ?S = "sortBy compareFn (map (withVolume ?tm) (filter isUsdtPair symbols))"
  have "rankTokens l symbols tickerData = map (\<lambda>pv. toToken ?tm (pair pv)) (slice0 l ?S)"
    by (simp add: rankTokens_def Let_def)
  with assms have "t \<in> (\<lambda>pv. toToken ?tm (pair pv)) ` set (slice0 l ?S)"
    by (simp only: set_map)
  then obtain pv where pv: "pv \<in> set (slice0 l ?S)" and t: "t = toToken ?tm (pair pv)"
    by (rule imageE)
  from pv have "pv \<in> set ?S" by (rule subsetD [OF set_slice0])
  then have "pv \<in> withVolume ?tm ` set (filter isUsdtPair symbols)"
    by (simp only: set_sortBy set_map)
  then obtain p where p: "pv = withVolume ?tm p" "p \<in> set (filter isUsdtPair symbols)"
    by (rule imageE)
  from p(2) have "p \<in> set symbols" "isUsdtPair p" by simp_all
  moreover have "t = toToken ?tm p" using t p(1) by (simp only: pair_withVolume)
  ultimately show ?thesis by (rule that)
qed

lemma parseFloat_zero: "parseFloat ''0'' = Fin 0"
  by (simp add: parseFloat_def unsignedLiteral_def isWhiteSpace_def isDigit_def digitsVal_def
        digitVal_def pow10_def exponentPart_def)

lemma parseFloat_orZero:
  "parseFloat (orZero ticker field) =
     (case ticker of None \<Rightarrow> Fin 0
      | Some k \<Rightarrow> if field k = [] then Fin 0 else parseFloat (field k))"
  by (simp add: orZero_def parseFloat_zero split: option.splits)

lemma parseFloat_unparseable: "parseFloat ''n/a'' = NaN" "parseFloat ''abc'' = NaN"
  by (simp_all add: parseFloat_def unsignedLiteral_def isWhiteSpace_def isDigit_def)


lemma token_id_rankTokens:
  "map token_id (rankTokens l symbols tickerData) =
     map (\<lambda>pv. pair_symbol (pair pv))
       (slice0 l (sortBy compareFn (map (withVolume (tickerMapOf tickerData)) (filter isUsdtPair symbols))))"
  by (simp add: rankTokens_def Let_def toToken_def comp_def)

lemma try_failed1: "failed response \<Longrightarrow> \<exists>e. fetchTopTokens_try l response tickerResponse = Inl e"
  by (cases response) (simp_all add: failed_def fetchTopTokens_try_def)

lemma try_failed2: "failed tickerResponse \<Longrightarrow> \<exists>e. fetchTopTokens_try l response tickerResponse = Inl e"
proof (cases response)
  case Rejected
  then show ?thesis by (simp add: fetchTopTokens_try_def)
next
  case (Response ok body)
  assume f: "failed tickerResponse"
  show ?thesis
  proof (cases "ok \<and> body \<noteq> None")
    case False
    then show ?thesis using Response by (auto simp: fetchTopTokens_try_def)
  next
    case True
    then obtain symbols where "body = Some symbols" "ok" by auto
    then show ?thesis using Response f
      by (cases tickerResponse) (simp_all add: failed_def fetchTopTokens_try_def)
  qed
qed

subsection \<open>The order of the result\<close>

lemma js_sub_less_zero:
  "a \<noteq> NaN \<Longrightarrow> b \<noteq> NaN \<Longrightarrow> js_less (js_sub b a) (Fin 0) = js_less b a"
  by (cases a; cases b) simp_all

lemma js_ge_trans: "js_ge a b \<Longrightarrow> js_ge b c \<Longrightarrow> js_ge a c"
  by (cases a; cases b; cases c) (simp_all add: js_ge_def)

lemma js_ge_total: "a \<noteq> NaN \<Longrightarrow> b \<noteq> NaN \<Longrightarrow> \<not> js_less b a \<Longrightarrow> js_ge b a"
  by (simp add: js_ge_def)

lemma js_less_imp_ge: "js_less b a \<Longrightarrow> js_ge a b"
  by (cases a; cases b) (simp_all add: js_ge_def)

lemma goesBefore_rankedBefore:
  assumes "pv_volume a \<noteq> NaN" "pv_volume b \<noteq> NaN" "goesBefore compareFn a b"
  shows "rankedBefore a b"
proof (cases "priority a = priority b")
  case True
  then have "js_less (pv_volume b) (pv_volume a)"
    using assms by (simp add: goesBefore_def compareFn_def js_sub_less_zero)
  then show ?thesis using True by (simp add: rankedBefore_def js_less_imp_ge)
next
  case False
  then show ?thesis using assms(3) by (simp add: goesBefore_def compareFn_def rankedBefore_def)
qed

lemma not_goesBefore_rankedBefore:
  assumes "pv_volume a \<noteq> NaN" "pv_volume b \<noteq> NaN" "\<not> goesBefore compareFn a b"
  shows "rankedBefore b a"
proof (cases "priority a = priority b")
  case True
  then have "\<not> js_less (pv_volume b) (pv_volume a)"
    using assms by (simp add: goesBefore_def compareFn_def js_sub_less_zero)
  then show ?thesis using True assms(1,2) by (simp add: rankedBefore_def js_ge_total)
next
  case False
  then show ?thesis using assms(3) by (simp add: goesBefore_def compareFn_def rankedBefore_def)
qed

lemma rankedBefore_trans: "rankedBefore a b \<Longrightarrow> rankedBefore b c \<Longrightarrow> rankedBefore a c"
  unfolding rankedBefore_def using js_ge_trans by fastforce

lemma sorted_rankedBefore_sortBy:
  assumes "\<forall>x \<in> set xs. pv_volume x \<noteq> NaN"
  shows "sorted_wrt rankedBefore (sortBy compareFn xs)"
proof (rule sorted_wrt_sortBy [where A = "{x. pv_volume x \<noteq> NaN}"])
  show "set xs \<subseteq> {x. pv_volume x \<noteq> NaN}" using assms by blast
qed (simp_all add: goesBefore_rankedBefore not_goesBefore_rankedBefore,
     use rankedBefore_trans in blast)

lemma toToken_baseAsset: "token_baseAsset (toToken tm p) = baseAsset p"
  by (simp add: toToken_def Let_def)

lemma toToken_volume:
  "volume_24h (toToken tm p) = parseFloat (orZero (tm (pair_symbol p)) volume)"
  by (simp add: toToken_def Let_def)

lemma withVolume_priority:
  "priority (withVolume tm p) = (if baseAsset p \<in> set MAJOR_TOKENS then 1 else 0)"
  by (simp add: withVolume_def)

lemma withVolume_volume:
  "pv_volume (withVolume tm p) = parseFloat (orZero (tm (pair_symbol p)) volume)"
  by (simp add: withVolume_def)

lemma ranked_elem:
  assumes "pv \<in> set (slice0 l (sortBy compareFn (map (withVolume tm) (filter isUsdtPair symbols))))"
  shows "priority pv =
           (if token_baseAsset (toToken tm (pair pv)) \<in> set MAJOR_TOKENS then 1 else 0) \<and>
         pv_volume pv = volume_24h (toToken tm (pair pv))"
proof -
  from assms have "pv \<in> set (sortBy compareFn (map (withVolume tm) (filter isUsdtPair symbols)))"
    by (rule subsetD [OF set_slice0])
  then have "pv \<in> withVolume tm ` set (filter isUsdtPair symbols)"
    by (simp only: set_sortBy set_map)
  then obtain p where "pv = withVolume tm p" by (rule imageE)
  then show ?thesis
    by (simp only: pair_withVolume toToken_baseAsset toToken_volume withVolume_priority
          withVolume_volume)
qed

lemma rankTokens_sorted:
  assumes parse: "\<forall>p \<in> set symbols. isUsdtPair p \<longrightarrow>
            parseFloat (orZero (tickerMapOf tickerData (pair_symbol p)) volume) \<noteq> NaN"
  shows "sorted_wrt (\<lambda>s t. (token_baseAsset t \<in> set MAJOR_TOKENS \<longrightarrow>
                              token_baseAsset s \<in> set MAJOR_TOKENS) \<and>
                            ((token_baseAsset s \<in> set MAJOR_TOKENS) =
                               (token_baseAsset t \<in> set MAJOR_TOKENS) \<longrightarrow>
                             js_ge (volume_24h s) (volume_24h t)))
           (rankTokens l symbols tickerData)"
proof -
  let ?tm = "tickerMapOf tickerData"
  let ?f = "\<lambda>pv. toToken ?tm (pair pv)"
  let ?X = "map (withVolume ?tm) (filter isUsdtPair symbols)"
  let ?S = "sortBy compareFn ?X"
  have tokens: "rankTokens l symbols tickerData = map ?f (slice0 l ?S)"
    by (simp add: rankTokens_def Let_def)
  have "\<forall>x \<in> set ?X. pv_volume x \<noteq> NaN"
    using parse by (simp add: withVolume_volume)
  then have "sorted_wrt rankedBefore ?S" by (rule sorted_rankedBefore_sortBy)
  then have "sorted_wrt rankedBefore (slice0 l ?S)" by (rule sorted_wrt_slice0)
  then have "sorted_wrt (\<lambda>a b. (token_baseAsset (?f b) \<in> set MAJOR_TOKENS \<longrightarrow>
                                token_baseAsset (?f a) \<in> set MAJOR_TOKENS) \<and>
                              ((token_baseAsset (?f a) \<in> set MAJOR_TOKENS) =
                                 (token_baseAsset (?f b) \<in> set MAJOR_TOKENS) \<longrightarrow>
                               js_ge (volume_24h (?f a)) (volume_24h (?f b)))) (slice0 l ?S)"
  proof (rule sorted_wrt_mono_rel [rotated])
    fix a b
    assume "a \<in> set (slice0 l ?S)" "b \<in> set (slice0 l ?S)" "rankedBefore a b"
    then show "(token_baseAsset (?f b) \<in> set MAJOR_TOKENS \<longrightarrow>
                  token_baseAsset (?f a) \<in> set MAJOR_TOKENS) \<and>
               ((token_baseAsset (?f a) \<in> set MAJOR_TOKENS) =
                  (token_baseAsset (?f b) \<in> set MAJOR_TOKENS) \<longrightarrow>
                js_ge (volume_24h (?f a)) (volume_24h (?f b)))"
      using ranked_elem [of a l ?tm symbols] ranked_elem [of b l ?tm symbols]
      by (auto simp: rankedBefore_def split: if_splits)
  qed
  then show ?thesis by (simp only: tokens sorted_wrt_map)
qed

subsection \<open>The examples, evaluated\<close>

lemma ex_ranking: "rankTokens 300 ex_pairs ex_tickers = ex_tokens"
  by (simp add: ex_pairs_def ex_tickers_def ex_tokens_def eval_defs)

lemma ex_ranking_neg: "rankTokens (- 1) ex_pairs ex_tickers = butlast ex_tokens"
  by (simp add: ex_pairs_def ex_tickers_def ex_tokens_def eval_defs)

lemma ex_bad_ranking: "rankTokens 300 ex_pairs ex_bad_tickers = ex_bad_tokens"
  by (simp add: ex_pairs_def ex_bad_tickers_def ex_bad_tokens_def eval_defs)

lemma ex_nan_ranking: "rankTokens 300 (take 2 ex_pairs) ex_nan_tickers = ex_nan_tokens"
  by (simp add: ex_pairs_def ex_nan_tickers_def ex_nan_tokens_def eval_defs)

lemma ex_fetch:
  "fetchTopTokens None (Response True (Some ex_pairs)) (Response True (Some ex_tickers)) = Inr ex_tokens"
  by (simp add: fetchTopTokens_ok ex_ranking)

lemma ex_fetch_two:
  "fetchTopTokens (Some 2) (Response True (Some ex_pairs)) (Response True (Some ex_tickers)) =
     Inr (take 2 ex_tokens)"
  by (simp add: fetchTopTokens_ok)
     (simp add: ex_pairs_def ex_tickers_def ex_tokens_def eval_defs)

lemma ex_fetch_neg:
  "fetchTopTokens (Some (- 1)) (Response True (Some ex_pairs)) (Response True (Some ex_tickers)) =
     Inr (butlast ex_tokens)"
  by (simp add: fetchTopTokens_ok ex_ranking_neg)

lemma ex_bad_fetch:
  "fetchTopTokens None (Response True (Some ex_pairs)) (Response True (Some ex_bad_tickers)) =
     Inr ex_bad_tokens"
  by (simp add: fetchTopTokens_ok ex_bad_ranking)

lemma ex_nan_fetch:
  "fetchTopTokens None (Response True (Some (take 2 ex_pairs)))
     (Response True (Some ex_nan_tickers)) = Inr ex_nan_tokens"
  by (simp add: fetchTopTokens_ok ex_nan_ranking)

section \<open>The claims about the ranker\<close>

text \<open>
  C1, as amended. Of every token in the result, a numeric field is 0 when the instrument
  has no ticker snapshot or the snapshot's string for the field is empty; otherwise it is
  \<open>parseFloat\<close> of that string, which is NaN when the string has no numeric prefix.
\<close>

theorem fetchTopTokens_numeric_fields:
  assumes "fetchTopTokens limit response tickerResponse = Inr tokens" and "t \<in> set tokens"
  shows "\<exists>tickerData. tickerResponse = Response True (Some tickerData) \<and>
           (case tickerMapOf tickerData (token_id t) of
              None \<Rightarrow> current_price t = Fin 0 \<and> market_cap t = Fin 0 \<and>
                        price_change_percentage_24h t = Fin 0 \<and> volume_24h t = Fin 0
            | Some k \<Rightarrow>
                current_price t = (if lastPrice k = [] then Fin 0 else parseFloat (lastPrice k)) \<and>
                market_cap t = (if quoteVolume k = [] then Fin 0 else parseFloat (quoteVolume k)) \<and>
                price_change_percentage_24h t =
                  (if priceChangePercent k = [] then Fin 0 else parseFloat (priceChangePercent k)) \<and>
                volume_24h t = (if volume k = [] then Fin 0 else parseFloat (volume k)))"
proof -
  from assms obtain symbols tickerData where
    tr: "tickerResponse = Response True (Some tickerData)" and
    toks: "tokens = rankTokens (case limit of None \<Rightarrow> 300 | Some l \<Rightarrow> l) symbols tickerData"
    using fetchTopTokens_cases [OF assms(1)] by auto
  from assms(2) have "t \<in> set (rankTokens (case limit of None \<Rightarrow> 300 | Some l \<Rightarrow> l) symbols tickerData)"
    by (simp only: toks)
  then obtain p where t: "t = toToken (tickerMapOf tickerData) p"
    by (rule rankTokens_elem)
  show ?thesis
    using tr by (simp add: t toToken_def Let_def parseFloat_orZero split: option.splits)
qed

text \<open>
  The amended C1 on the example with unreadable prices: FOOUSDT has an empty last price
  (the price is 0), BARUSDT the last price \<open>n/a\<close> (the price is \<open>parseFloat\<close> of
  it), and BTCUSDT has no ticker (all fields are 0).
\<close>

theorem fetchTopTokens_numeric_fields_witness:
  "fetchTopTokens None (Response True (Some ex_pairs)) (Response True (Some ex_bad_tickers)) =
     Inr ex_bad_tokens \<and>
   ex_bad_tokens ! 3 \<in> set ex_bad_tokens \<and>
   tickerMapOf ex_bad_tickers (token_id (ex_bad_tokens ! 3)) = Some (ex_bad_tickers ! 0) \<and>
   lastPrice (ex_bad_tickers ! 0) = [] \<and> current_price (ex_bad_tokens ! 3) = Fin 0 \<and>
   ex_bad_tokens ! 2 \<in> set ex_bad_tokens \<and>
   tickerMapOf ex_bad_tickers (token_id (ex_bad_tokens ! 2)) = Some (ex_bad_tickers ! 1) \<and>
   lastPrice (ex_bad_tickers ! 1) = ''n/a'' \<and>
   current_price (ex_bad_tokens ! 2) = parseFloat ''n/a'' \<and>
   ex_bad_tokens ! 0 \<in> set ex_bad_tokens \<and>
   tickerMapOf ex_bad_tickers (token_id (ex_bad_tokens ! 0)) = None \<and>
   current_price (ex_bad_tokens ! 0) = Fin 0 \<and> volume_24h (ex_bad_tokens ! 0) = Fin 0"
proof -
  have m3: "ex_bad_tokens ! 3 \<in> set ex_bad_tokens" and m2: "ex_bad_tokens ! 2 \<in> set ex_bad_tokens"
    and m0: "ex_bad_tokens ! 0 \<in> set ex_bad_tokens"
    by (simp_all add: ex_bad_tokens_def)
  have t3: "tickerMapOf ex_bad_tickers (token_id (ex_bad_tokens ! 3)) = Some (ex_bad_tickers ! 0)"
    and t2: "tickerMapOf ex_bad_tickers (token_id (ex_bad_tokens ! 2)) = Some (ex_bad_tickers ! 1)"
    and t0: "tickerMapOf ex_bad_tickers (token_id (ex_bad_tokens ! 0)) = None"
    by (simp_all add: ex_bad_tokens_def ex_bad_tickers_def tickerMapOf_def)
  have f: "lastPrice (ex_bad_tickers ! 0) = []" "lastPrice (ex_bad_tickers ! 1) = ''n/a''"
    by (simp_all add: ex_bad_tickers_def)
  from fetchTopTokens_numeric_fields [OF ex_bad_fetch m3]
  have "current_price (ex_bad_tokens ! 3) = Fin 0"
    by (simp add: t3 f)
  moreover from fetchTopTokens_numeric_fields [OF ex_bad_fetch m2]
  have "current_price (ex_bad_tokens ! 2) = parseFloat ''n/a''"
    by (simp add: t2 f del: One_nat_def)
  moreover from fetchTopTokens_numeric_fields [OF ex_bad_fetch m0]
  have "current_price (ex_bad_tokens ! 0) = Fin 0 \<and> volume_24h (ex_bad_tokens ! 0) = Fin 0"
    by (simp add: t0)
  ultimately show ?thesis using ex_bad_fetch m0 m2 m3 t0 t2 t3 f by (simp del: One_nat_def)
qed

text \<open>
  C1 as stated fails: the ticker of BARUSDT has the last price \<open>n/a\<close>, which does not
  parse, and the price of the token is NaN, not 0.
\<close>

theorem fetchTopTokens_parse_failure_counterexample:
  "lastPrice (ex_bad_tickers ! 1) = ''n/a'' \<and> parseFloat ''n/a'' = NaN \<and>
   fetchTopTokens None (Response True (Some ex_pairs)) (Response True (Some ex_bad_tickers)) =
     Inr ex_bad_tokens \<and>
   token_id (ex_bad_tokens ! 2) = ticker_symbol (ex_bad_tickers ! 1) \<and>
   current_price (ex_bad_tokens ! 2) = NaN \<and> current_price (ex_bad_tokens ! 2) \<noteq> Fin 0"
  by (simp add: ex_bad_fetch parseFloat_unparseable) (simp add: ex_bad_tickers_def ex_bad_tokens_def)

text \<open>
  C2. When the exchange-info request or the ticker request fails (it is rejected, or the
  status is not a success), \<open>fetchTopTokens\<close> returns the empty array, and returns it
  normally: no exception leaves the function.
\<close>

theorem fetchTopTokens_failure_empty:
  assumes "failed response \<or> failed tickerResponse"
  shows "fetchTopTokens limit response tickerResponse = Inr []"
proof -
  obtain e where
    "fetchTopTokens_try (case limit of None \<Rightarrow> 300 | Some l \<Rightarrow> l) response tickerResponse = Inl e"
    using assms try_failed1 try_failed2 by blast
  then show ?thesis by (simp add: fetchTopTokens_def)
qed

text \<open>C2 on a catalog response with a failure status, and on a rejected ticker request.\<close>

theorem fetchTopTokens_failure_empty_witness:
  "failed (Response False (Some ex_pairs)) \<and>
   fetchTopTokens None (Response False (Some ex_pairs)) (Response True (Some ex_tickers)) = Inr [] \<and>
   failed (Rejected :: BinanceTicker list fetched) \<and>
   fetchTopTokens None (Response True (Some ex_pairs)) Rejected = Inr []"
proof -
  have 1: "failed (Response False (Some ex_pairs))"
    and 2: "failed (Rejected :: BinanceTicker list fetched)"
    by (simp_all add: failed_def)
  from 1 have "failed (Response False (Some ex_pairs)) \<or> failed (Response True (Some ex_tickers))" ..
  note a = fetchTopTokens_failure_empty [OF this, of None]
  from 2 have "failed (Response True (Some ex_pairs)) \<or> failed (Rejected :: BinanceTicker list fetched)" ..
  note b = fetchTopTokens_failure_empty [OF this, of None]
  show ?thesis using 1 2 a b by simp
qed

text \<open>
  C3, as amended. Provided the volume of every instrument that passes the filter is a
  number (not NaN): in the result no token of a major asset stands behind a token of
  another asset, and two tokens of equal priority stand in non-increasing order of
  volume. For responses other than two successful ones the result is empty.
\<close>

theorem fetchTopTokens_order:
  assumes "fetchTopTokens limit (Response True (Some symbols)) (Response True (Some tickerData)) =
             Inr tokens"
    and "\<forall>p \<in> set symbols. isUsdtPair p \<longrightarrow>
           parseFloat (orZero (tickerMapOf tickerData (pair_symbol p)) volume) \<noteq> NaN"
    and "i < j" and "j < length tokens"
  shows "(token_baseAsset (tokens ! j) \<in> set MAJOR_TOKENS \<longrightarrow>
            token_baseAsset (tokens ! i) \<in> set MAJOR_TOKENS) \<and>
         ((token_baseAsset (tokens ! i) \<in> set MAJOR_TOKENS) =
            (token_baseAsset (tokens ! j) \<in> set MAJOR_TOKENS) \<longrightarrow>
          js_ge (volume_24h (tokens ! i)) (volume_24h (tokens ! j)))"
proof -
  let ?l = "case limit of None \<Rightarrow> 300 | Some l \<Rightarrow> l"
  have tokens: "tokens = rankTokens ?l symbols tickerData"
    using assms(1) by (simp add: fetchTopTokens_ok)
  have j: "j < length (rankTokens ?l symbols tickerData)" using assms(4) by (simp only: tokens)
  show ?thesis
    unfolding tokens
    by (rule sorted_wrt_nth_less [OF rankTokens_sorted [OF assms(2)] assms(3) j])
qed

text \<open>
  The amended C3 on the example, where every volume parses: BTC and ETH, both major,
  come first, in the order of their volumes 10 and 3, and ETH stands before BAR, though
  BAR has the volume 20.
\<close>

theorem fetchTopTokens_order_witness:
  "fetchTopTokens None (Response True (Some ex_pairs)) (Response True (Some ex_tickers)) =
     Inr ex_tokens \<and> (0::nat) < 1 \<and> 1 < length ex_tokens \<and>
   map token_baseAsset ex_tokens = [''BTC'', ''ETH'', ''BAR'', ''FOO''] \<and>
   map volume_24h ex_tokens = [Fin 10, Fin 3, Fin 20, Fin 5] \<and>
   map (\<lambda>p. parseFloat (orZero (tickerMapOf ex_tickers (pair_symbol p)) volume))
     (filter isUsdtPair ex_pairs) = [Fin 5, Fin 20, Fin 10, Fin 3] \<and>
   token_baseAsset (ex_tokens ! 1) \<in> set MAJOR_TOKENS \<and>
   token_baseAsset (ex_tokens ! 0) \<in> set MAJOR_TOKENS \<and>
   js_ge (volume_24h (ex_tokens ! 0)) (volume_24h (ex_tokens ! 1))"
proof -
  have len: "1 < length ex_tokens" by (simp add: ex_tokens_def)
  have vols: "map (\<lambda>p. parseFloat (orZero (tickerMapOf ex_tickers (pair_symbol p)) volume))
     (filter isUsdtPair ex_pairs) = [Fin 5, Fin 20, Fin 10, Fin 3]"
    by (simp add: ex_pairs_def ex_tickers_def eval_defs)
  have parse: "\<forall>p \<in> set ex_pairs. isUsdtPair p \<longrightarrow>
     parseFloat (orZero (tickerMapOf ex_tickers (pair_symbol p)) volume) \<noteq> NaN"
    by (simp add: ex_pairs_def ex_tickers_def eval_defs)
  have major: "token_baseAsset (ex_tokens ! 1) \<in> set MAJOR_TOKENS"
    by (simp add: ex_tokens_def MAJOR_TOKENS_def)
  note t = fetchTopTokens_order [OF ex_fetch parse _ len, of 0]
  have first: "token_baseAsset (ex_tokens ! 0) \<in> set MAJOR_TOKENS"
    using t major by simp
  have "js_ge (volume_24h (ex_tokens ! 0)) (volume_24h (ex_tokens ! 1))"
    using t major first by simp
  moreover have "map token_baseAsset ex_tokens = [''BTC'', ''ETH'', ''BAR'', ''FOO'']"
    "map volume_24h ex_tokens = [Fin 10, Fin 3, Fin 20, Fin 5]"
    by (simp_all add: ex_tokens_def)
  ultimately show ?thesis using ex_fetch len major first vols by simp
qed

text \<open>
  C3 as stated fails: with a catalog of FOOUSDT and BARUSDT only, the two tokens have
  equal priority, the volume of FOO is NaN since its string does not parse, and NaN
  compares with nothing, so neither order of the two is non-increasing.
\<close>

theorem fetchTopTokens_order_counterexample:
  "fetchTopTokens None (Response True (Some (take 2 ex_pairs)))
     (Response True (Some ex_nan_tickers)) = Inr ex_nan_tokens \<and>
   length ex_nan_tokens = 2 \<and>
   token_baseAsset (ex_nan_tokens ! 0) \<notin> set MAJOR_TOKENS \<and>
   token_baseAsset (ex_nan_tokens ! 1) \<notin> set MAJOR_TOKENS \<and>
   volume_24h (ex_nan_tokens ! 0) = NaN \<and> volume_24h (ex_nan_tokens ! 1) = Fin 20 \<and>
   \<not> js_ge (volume_24h (ex_nan_tokens ! 0)) (volume_24h (ex_nan_tokens ! 1)) \<and>
   \<not> js_ge (volume_24h (ex_nan_tokens ! 1)) (volume_24h (ex_nan_tokens ! 0))"
  by (simp add: ex_nan_fetch) (simp add: ex_nan_tokens_def MAJOR_TOKENS_def js_ge_def)

text \<open>
  C5, as amended. For every limit that is not negative, the result has at most limit
  elements; without a limit it has at most 300.
\<close>

theorem fetchTopTokens_length:
  assumes "fetchTopTokens limit response tickerResponse = Inr tokens"
  shows "case limit of None \<Rightarrow> int (length tokens) \<le> 300
         | Some l \<Rightarrow> 0 \<le> l \<longrightarrow> int (length tokens) \<le> l"
proof -
  have len: "int (length (rankTokens l symbols tickerData)) \<le> l" if "0 \<le> l" for l symbols tickerData
    using that length_slice0 [of l] by (simp add: rankTokens_def Let_def)
  show ?thesis
  proof (cases limit)
    case None
    from fetchTopTokens_cases [OF assms] show ?thesis
    proof
      assume "tokens = []"
      then show ?thesis using None by simp
    next
      assume "\<exists>symbols tickerData.
            response = Response True (Some symbols) \<and>
            tickerResponse = Response True (Some tickerData) \<and>
            tokens = rankTokens (case limit of None \<Rightarrow> 300 | Some l \<Rightarrow> l) symbols tickerData"
      then obtain symbols tickerData where "tokens = rankTokens 300 symbols tickerData"
        using None by auto
      then show ?thesis using None len [of 300 symbols tickerData] by simp
    qed
  next
    case (Some l)
    from fetchTopTokens_cases [OF assms] show ?thesis
    proof
      assume "tokens = []"
      then show ?thesis using Some by simp
    next
      assume "\<exists>symbols tickerData.
            response = Response True (Some symbols) \<and>
            tickerResponse = Response True (Some tickerData) \<and>
            tokens = rankTokens (case limit of None \<Rightarrow> 300 | Some l \<Rightarrow> l) symbols tickerData"
      then obtain symbols tickerData where "tokens = rankTokens l symbols tickerData"
        using Some by auto
      then show ?thesis using Some len [of l symbols tickerData] by simp
    qed
  qed
qed

text \<open>The amended C5 on the example, with the limit 2 and with the default.\<close>

theorem fetchTopTokens_length_witness:
  "fetchTopTokens (Some 2) (Response True (Some ex_pairs)) (Response True (Some ex_tickers)) =
     Inr (take 2 ex_tokens) \<and> (0::int) \<le> 2 \<and> int (length (take 2 ex_tokens)) \<le> 2 \<and>
   fetchTopTokens None (Response True (Some ex_pairs)) (Response True (Some ex_tickers)) =
     Inr ex_tokens \<and> int (length ex_tokens) \<le> 300"
  using fetchTopTokens_length [OF ex_fetch_two] fetchTopTokens_length [OF ex_fetch]
    ex_fetch_two ex_fetch
  by simp

text \<open>
  C5 as stated fails for a negative limit: \<open>slice(0, -1)\<close> drops the last element,
  and the three elements that remain are more than -1.
\<close>

theorem fetchTopTokens_length_counterexample:
  "fetchTopTokens (Some (- 1)) (Response True (Some ex_pairs)) (Response True (Some ex_tickers)) =
     Inr (butlast ex_tokens) \<and> length (butlast ex_tokens) = 3 \<and>
   \<not> int (length (butlast ex_tokens)) \<le> - 1"
  by (simp add: ex_fetch_neg) (simp add: ex_tokens_def)

text \<open>
  C6. Every token of the result comes from an instrument of the catalog whose quote asset
  is USDT, whose status is TRADING and whose symbol contains neither DOWN nor UP.
\<close>

theorem fetchTopTokens_only_tradable:
  assumes "fetchTopTokens limit response tickerResponse = Inr tokens" and "t \<in> set tokens"
  shows "\<exists>symbols p. response = Response True (Some symbols) \<and> p \<in> set symbols \<and>
           token_id t = pair_symbol p \<and> token_baseAsset t = baseAsset p \<and>
           token_quoteAsset t = quoteAsset p \<and>
           quoteAsset p = ''USDT'' \<and> status p = ''TRADING'' \<and>
           \<not> includesStr (pair_symbol p) ''DOWN'' \<and> \<not> includesStr (pair_symbol p) ''UP''"
proof -
  from assms obtain symbols tickerData where
    r: "response = Response True (Some symbols)" and
    toks: "tokens = rankTokens (case limit of None \<Rightarrow> 300 | Some l \<Rightarrow> l) symbols tickerData"
    using fetchTopTokens_cases [OF assms(1)] by auto
  from assms(2) have "t \<in> set (rankTokens (case limit of None \<Rightarrow> 300 | Some l \<Rightarrow> l) symbols tickerData)"
    by (simp only: toks)
  then obtain p where
    p: "p \<in> set symbols" "isUsdtPair p" and t: "t = toToken (tickerMapOf tickerData) p"
    by (rule rankTokens_elem)
  have "token_id t = pair_symbol p" "token_baseAsset t = baseAsset p"
    "token_quoteAsset t = quoteAsset p"
    by (simp_all add: t toToken_def Let_def)
  then show ?thesis using r p by (auto simp: isUsdtPair_def)
qed

text \<open>C6 on the example: ETHBTC, BNBUPUSDT and LTCUSDT (not trading) are left out.\<close>

theorem fetchTopTokens_only_tradable_witness:
  "fetchTopTokens None (Response True (Some ex_pairs)) (Response True (Some ex_tickers)) =
     Inr ex_tokens \<and> ex_tokens ! 0 \<in> set ex_tokens \<and>
   token_id (ex_tokens ! 0) = ''BTCUSDT'' \<and> token_quoteAsset (ex_tokens ! 0) = ''USDT'' \<and>
   \<not> includesStr (token_id (ex_tokens ! 0)) ''DOWN'' \<and>
   \<not> includesStr (token_id (ex_tokens ! 0)) ''UP'' \<and>
   map token_id ex_tokens = [''BTCUSDT'', ''ETHUSDT'', ''BARUSDT'', ''FOOUSDT'']"
proof -
  have m: "ex_tokens ! 0 \<in> set ex_tokens" by (simp add: ex_tokens_def)
  from fetchTopTokens_only_tradable [OF ex_fetch m]
  have "token_quoteAsset (ex_tokens ! 0) = ''USDT'' \<and>
        \<not> includesStr (token_id (ex_tokens ! 0)) ''DOWN'' \<and>
        \<not> includesStr (token_id (ex_tokens ! 0)) ''UP''"
    by auto
  moreover have "map token_id ex_tokens = [''BTCUSDT'', ''ETHUSDT'', ''BARUSDT'', ''FOOUSDT'']"
    "token_id (ex_tokens ! 0) = ''BTCUSDT''"
    by (simp_all add: ex_tokens_def)
  ultimately show ?thesis using ex_fetch m by simp
qed

text \<open>
  C7. When the catalog lists every symbol at most once, the ids of the tokens of one
  result are pairwise distinct.
\<close>

theorem fetchTopTokens_ids_distinct:
  assumes "distinct (map pair_symbol symbols)"
    and "fetchTopTokens limit (Response ok (Some symbols)) tickerResponse = Inr tokens"
  shows "distinct (map token_id tokens)"
proof -
  consider "tokens = []"
    | tickerData where "tokens = rankTokens (case limit of None \<Rightarrow> 300 | Some l \<Rightarrow> l) symbols tickerData"
    using fetchTopTokens_cases [OF assms(2)] by auto
  then show ?thesis
  proof cases
    case 1
    then show ?thesis by simp
  next
    case 2
    let ?tm = "tickerMapOf tickerData"
    let ?xs = "map (withVolume ?tm) (filter isUsdtPair symbols)"
    have eq: "map (\<lambda>pv. pair_symbol (pair pv)) ?xs = map pair_symbol (filter isUsdtPair symbols)"
      by (induction symbols) (simp_all add: withVolume_def)
    have "distinct (map pair_symbol (filter isUsdtPair symbols))"
      using assms(1) by (rule distinct_map_filter)
    then have "distinct (map (\<lambda>pv. pair_symbol (pair pv)) ?xs)"
      by (simp only: eq)
    then have "distinct (map (\<lambda>pv. pair_symbol (pair pv)) (sortBy compareFn ?xs))"
      by (simp only: distinct_map_sortBy)
    then have "distinct (map (\<lambda>pv. pair_symbol (pair pv)) (slice0 l (sortBy compareFn ?xs)))" for l
      by (simp add: slice0_def Let_def take_map [symmetric] distinct_take del: take_map)
    then show ?thesis using 2 by (simp only: token_id_rankTokens)
  qed
qed

text \<open>C7 on the example.\<close>

theorem fetchTopTokens_ids_distinct_witness:
  "distinct (map pair_symbol ex_pairs) \<and>
   fetchTopTokens None (Response True (Some ex_pairs)) (Response True (Some ex_tickers)) =
     Inr ex_tokens \<and> distinct (map token_id ex_tokens)"
proof -
  have d: "distinct (map pair_symbol ex_pairs)" by (simp add: ex_pairs_def)
  show ?thesis using fetchTopTokens_ids_distinct [OF d ex_fetch] d ex_fetch by simp
qed

section \<open>Facts about the stream handle\<close>

lemmas ws_eval_defs = run_def step_def initialWorld_def initializeWebSocket_def newWebSocket_def
  socketClose_def markClosed_def closeWebSocket_def toLowerCase_def lowerChar_def Let_def

lemma sockets_markClosed:
  "length (sockets (markClosed h w)) = length (sockets w)"
  "i < length (sockets w) \<Longrightarrow>
     closed (sockets (markClosed h w) ! i) = (i = h \<or> closed (sockets w ! i))"
  by (simp add: markClosed_def, cases "i = h", simp_all add: markClosed_def)

lemma ws_markClosed: "ws (markClosed h w) = ws w"
  by (simp add: markClosed_def)

lemma sockets_socketClose: "sockets (socketClose h w) = sockets (markClosed h w)"
  by (simp add: socketClose_def)

lemma wsInv_initial: "wsInv (initialWorld win)"
  by (simp add: wsInv_def initialWorld_def)

lemma wsInv_markClosed: "wsInv w \<Longrightarrow> wsInv (markClosed h w)"
  by (simp add: wsInv_def sockets_markClosed ws_markClosed)

lemma all_closed_after_close:
  assumes "wsInv w" and "ws w = Some old" and "i < length (sockets w)"
  shows "closed (sockets (socketClose old w) ! i)"
  using assms by (auto simp: wsInv_def sockets_socketClose sockets_markClosed)

lemma all_closed_no_handle:
  assumes "wsInv w" and "ws w = None" and "i < length (sockets w)"
  shows "closed (sockets w ! i)"
  using assms by (auto simp: wsInv_def)

text \<open>The state after the first statement of \<open>initializeWebSocket\<close>.\<close>

lemma closed_before_open:
  assumes "wsInv w" and "i < length (sockets w)"
  shows "closed (sockets (case ws w of Some old \<Rightarrow> socketClose old w | None \<Rightarrow> w) ! i)"
  using assms all_closed_after_close all_closed_no_handle
  by (cases "ws w") simp_all

lemma length_before_open:
  "length (sockets (case ws w of Some old \<Rightarrow> socketClose old w | None \<Rightarrow> w)) = length (sockets w)"
  by (cases "ws w") (simp_all add: sockets_socketClose sockets_markClosed)

lemma lowerChar_hash: "(lowerChar c = CHR ''#'') = (c = CHR ''#'')"
proof (cases "map_of (zip ''ABCDEFGHIJKLMNOPQRSTUVWXYZ'' ''abcdefghijklmnopqrstuvwxyz'') c")
  case None
  then show ?thesis by (simp add: lowerChar_def)
next
  case (Some d)
  then have in_zip: "(c, d) \<in> set (zip ''ABCDEFGHIJKLMNOPQRSTUVWXYZ'' ''abcdefghijklmnopqrstuvwxyz'')"
    by (rule map_of_SomeD)
  have "d \<in> set ''abcdefghijklmnopqrstuvwxyz''" using in_zip by (rule set_zip_rightD)
  then have d: "d \<noteq> CHR ''#''" by auto
  have "c \<in> set ''ABCDEFGHIJKLMNOPQRSTUVWXYZ''" using in_zip by (rule set_zip_leftD)
  then have c: "c \<noteq> CHR ''#''" by auto
  have "lowerChar c = d" using Some by (simp add: lowerChar_def)
  then show ?thesis using c d by simp
qed

lemma hash_toLowerCase: "(CHR ''#'' \<in> set (toLowerCase s)) = (CHR ''#'' \<in> set s)"
proof -
  have "(CHR ''#'' \<in> lowerChar ` set s) = (\<exists>c \<in> set s. lowerChar c = CHR ''#'')"
    by (simp only: image_iff eq_commute [of "CHR ''#''"])
  then show ?thesis by (simp add: toLowerCase_def lowerChar_hash)
qed

lemma in_set_join:
  "c \<notin> set sep \<Longrightarrow> (c \<in> set (join sep xs)) = (\<exists>x \<in> set xs. c \<in> set x)"
  by (induction sep xs rule: join.induct) auto

lemma hash_in_url:
  "(CHR ''#'' \<in> set (''wss://stream.binance.com:9443/stream?streams='' @
        join ''/'' (map (\<lambda>symbol. toLowerCase symbol @ ''@ticker'') symbols))) =
   (\<exists>s \<in> set symbols. CHR ''#'' \<in> set s)"
proof -
  have "(CHR ''#'' \<in> set (join ''/'' (map (\<lambda>symbol. toLowerCase symbol @ ''@ticker'') symbols))) =
        (\<exists>s \<in> set symbols. CHR ''#'' \<in> set s)"
    by (subst in_set_join) (simp_all add: hash_toLowerCase)
  then show ?thesis by simp
qed

lemma initializeWebSocket_raises:
  assumes "\<exists>s \<in> set symbols. CHR ''#'' \<in> set s"
  shows "initializeWebSocket symbols w =
           (Inl SyntaxError, case ws w of Some old \<Rightarrow> socketClose old w | None \<Rightarrow> w)"
  unfolding initializeWebSocket_def newWebSocket_def Let_def hash_in_url
  using assms by simp

lemma initializeWebSocket_returns:
  assumes "\<not> (\<exists>s \<in> set symbols. CHR ''#'' \<in> set s)"
  shows "initializeWebSocket symbols w =
     (let w1 = (case ws w of Some old \<Rightarrow> socketClose old w | None \<Rightarrow> w);
          u = ''wss://stream.binance.com:9443/stream?streams='' @
              join ''/'' (map (\<lambda>symbol. toLowerCase symbol @ ''@ticker'') symbols)
      in (Inr (length (sockets w)),
          w1\<lparr> sockets := sockets w1 @ [\<lparr> url = u, closed = False \<rparr>],
              trace := trace w1 @ [SocketOpen (length (sockets w)) u],
              ws := Some (length (sockets w)) \<rparr>))"
  unfolding initializeWebSocket_def newWebSocket_def Let_def hash_in_url
  using assms by (simp add: length_before_open)

lemma initializeWebSocket_raised:
  assumes "initializeWebSocket symbols w = (Inl e, w')"
  shows "\<exists>s \<in> set symbols. CHR ''#'' \<in> set s"
    and "e = SyntaxError"
    and "w' = (case ws w of Some old \<Rightarrow> socketClose old w | None \<Rightarrow> w)"
proof -
  show hash: "\<exists>s \<in> set symbols. CHR ''#'' \<in> set s"
  proof (rule ccontr)
    assume "\<not> (\<exists>s \<in> set symbols. CHR ''#'' \<in> set s)"
    from initializeWebSocket_returns [OF this, of w] assms show False by (simp add: Let_def)
  qed
  from initializeWebSocket_raises [OF hash, of w] assms
  show "e = SyntaxError" "w' = (case ws w of Some old \<Rightarrow> socketClose old w | None \<Rightarrow> w)"
    by simp_all
qed

lemma initializeWebSocket_props:
  assumes "initializeWebSocket symbols w = (Inr h, w')"
  defines "u \<equiv> ''wss://stream.binance.com:9443/stream?streams='' @
              join ''/'' (map (\<lambda>symbol. toLowerCase symbol @ ''@ticker'') symbols)"
  shows "h = length (sockets w)"
    and "ws w' = Some h"
    and "length (sockets w') = Suc (length (sockets w))"
    and "sockets w' ! h = \<lparr> url = u, closed = False \<rparr>"
    and "i < length (sockets w) \<Longrightarrow> sockets w' ! i =
           sockets (case ws w of Some old \<Rightarrow> socketClose old w | None \<Rightarrow> w) ! i"
    and "trace w' = trace w @ (case ws w of Some old \<Rightarrow> [SocketClose old] | None \<Rightarrow> []) @
           [SocketOpen h u]"
    and "\<not> (\<exists>s \<in> set symbols. CHR ''#'' \<in> set s)"
proof -
  let ?w1 = "case ws w of Some old \<Rightarrow> socketClose old w | None \<Rightarrow> w"
  show nohash: "\<not> (\<exists>s \<in> set symbols. CHR ''#'' \<in> set s)"
  proof
    assume "\<exists>s \<in> set symbols. CHR ''#'' \<in> set s"
    from initializeWebSocket_raises [OF this, of w] assms(1) show False by simp
  qed
  have h: "h = length (sockets w)"
    and w': "w' = ?w1\<lparr> sockets := sockets ?w1 @ [\<lparr> url = u, closed = False \<rparr>],
              trace := trace ?w1 @ [SocketOpen (length (sockets w)) u],
              ws := Some (length (sockets w)) \<rparr>"
    using assms(1) [symmetric] initializeWebSocket_returns [OF nohash, of w]
    by (simp_all add: Let_def u_def)
  have len1: "length (sockets ?w1) = length (sockets w)" by (rule length_before_open)
  have socks: "sockets w' = sockets ?w1 @ [\<lparr> url = u, closed = False \<rparr>]"
    by (simp add: w')
  have tr: "trace w' = trace ?w1 @ [SocketOpen (length (sockets w)) u]"
    by (simp add: w')
  show "h = length (sockets w)" by (rule h)
  show "ws w' = Some h" by (simp add: w' h)
  show "length (sockets w') = Suc (length (sockets w))" by (simp add: socks len1)
  show "sockets w' ! h = \<lparr> url = u, closed = False \<rparr>"
    unfolding socks h using len1 by (simp add: nth_append)
  show "sockets w' ! i = sockets ?w1 ! i" if "i < length (sockets w)"
    unfolding socks using that len1 by (simp add: nth_append)
  show "trace w' = trace w @ (case ws w of Some old \<Rightarrow> [SocketClose old] | None \<Rightarrow> []) @
           [SocketOpen h u]"
    unfolding tr h by (cases "ws w") (simp_all add: socketClose_def)
qed

lemma wsInv_before_open:
  assumes "wsInv w"
  shows "wsInv (case ws w of Some old \<Rightarrow> socketClose old w | None \<Rightarrow> w)"
  using assms
  by (cases "ws w")
     (auto simp: wsInv_def socketClose_def sockets_markClosed ws_markClosed)

lemma wsInv_initializeWebSocket:
  assumes "wsInv w"
  shows "wsInv (snd (initializeWebSocket symbols w))"
proof (cases "\<exists>s \<in> set symbols. CHR ''#'' \<in> set s")
  case True
  then show ?thesis
    using wsInv_before_open [OF assms] by (simp only: initializeWebSocket_raises snd_conv)
next
  case False
  obtain w' where hw: "initializeWebSocket symbols w = (Inr (length (sockets w)), w')"
    using initializeWebSocket_returns [OF False, of w] by (simp add: Let_def)
  note p = initializeWebSocket_props [OF hw]
  have "ws w' = Some i" if "i < length (sockets w')" "\<not> closed (sockets w' ! i)" for i
  proof (cases "i < length (sockets w)")
    case True
    then have "closed (sockets w' ! i)"
      using p(5) [OF True] closed_before_open [OF assms True] by simp
    then show ?thesis using that(2) by simp
  next
    case False
    then have "i = length (sockets w)" using that(1) p(3) by simp
    then show ?thesis using p(2) by simp
  qed
  then show ?thesis by (simp add: hw wsInv_def)
qed

lemma wsInv_closeWebSocket: "wsInv w \<Longrightarrow> wsInv (closeWebSocket w)"
  by (cases "ws w")
     (auto simp: closeWebSocket_def wsInv_def sockets_socketClose sockets_markClosed)

lemma onmessage_frame:
  "onmessage parsed w = Inr w' \<Longrightarrow> sockets w' = sockets w \<and> ws w' = ws w \<and> hasWindow w' = hasWindow w"
  by (auto simp: onmessage_def split: option.splits sum.splits if_splits)

lemma wsInv_step: "wsInv w \<Longrightarrow> wsInv (step w a)"
proof (cases a)
  case (Open symbols)
  assume "wsInv w"
  then show ?thesis using Open by (simp add: step_def wsInv_initializeWebSocket)
next
  case Close
  assume "wsInv w"
  then show ?thesis using Close by (simp add: step_def wsInv_closeWebSocket)
next
  case (Message h parsed)
  assume inv: "wsInv w"
  show ?thesis
  proof (cases "onmessage parsed w")
    case (Inl e)
    then show ?thesis using inv Message by (simp add: step_def)
  next
    case (Inr w')
    then have "sockets w' = sockets w" "ws w' = ws w" using onmessage_frame by simp_all
    then have "wsInv w'" using inv by (simp add: wsInv_def)
    then show ?thesis using inv Inr Message by (simp add: step_def)
  qed
next
  case (Drop h)
  assume "wsInv w"
  then show ?thesis using Drop by (simp add: step_def wsInv_markClosed)
qed

lemma wsInv_foldl: "wsInv w \<Longrightarrow> wsInv (foldl step w acts)"
  by (induction acts arbitrary: w) (simp_all add: wsInv_step)

lemma wsInv_run: "wsInv (run win acts)"
  by (simp add: run_def wsInv_foldl wsInv_initial)

lemma liveSockets_le_1:
  assumes "wsInv w"
  shows "length (liveSockets w) \<le> 1"
proof (cases "ws w")
  case None
  then have "liveSockets w = []" using assms by (auto simp: liveSockets_def wsInv_def filter_empty_conv)
  then show ?thesis by simp
next
  case (Some h)
  have "set (liveSockets w) \<subseteq> {h}" using assms Some by (auto simp: liveSockets_def wsInv_def)
  moreover have "distinct (liveSockets w)" by (simp add: liveSockets_def)
  ultimately have "card (set (liveSockets w)) \<le> card {h}" by (intro card_mono) simp_all
  then show ?thesis using \<open>distinct (liveSockets w)\<close> by (simp add: distinct_card)
qed

lemma liveSockets_after_open:
  assumes "wsInv w" and "initializeWebSocket symbols w = (Inr h, w')"
  shows "liveSockets w' = [h]"
proof -
  note p = initializeWebSocket_props [OF assms(2)]
  have old: "closed (sockets w' ! i)" if "i < length (sockets w)" for i
    using p(5) [OF that] closed_before_open [OF assms(1) that] by simp
  have "liveSockets w' =
          filter (\<lambda>i. \<not> closed (sockets w' ! i)) [0..<length (sockets w)] @
          filter (\<lambda>i. \<not> closed (sockets w' ! i)) [h]"
    by (simp add: liveSockets_def p(3) p(1))
  moreover have "filter (\<lambda>i. \<not> closed (sockets w' ! i)) [0..<length (sockets w)] = []"
    using old by (simp add: filter_empty_conv)
  moreover have "filter (\<lambda>i. \<not> closed (sockets w' ! i)) [h] = [h]"
    by (simp add: p(4))
  ultimately show ?thesis by simp
qed

lemma liveSockets_after_raise:
  assumes "wsInv w" and "initializeWebSocket symbols w = (Inl e, w')"
  shows "liveSockets w' = []" and "ws w' = ws w"
    and "trace w' = trace w @ (case ws w of Some old \<Rightarrow> [SocketClose old] | None \<Rightarrow> [])"
    and "length (sockets w') = length (sockets w)"
proof -
  note w' = initializeWebSocket_raised(3) [OF assms(2)]
  show len: "length (sockets w') = length (sockets w)"
    unfolding w' by (rule length_before_open)
  have "closed (sockets w' ! i)" if "i < length (sockets w)" for i
    unfolding w' using closed_before_open [OF assms(1) that] .
  then show "liveSockets w' = []"
    by (simp add: liveSockets_def len filter_empty_conv)
  show "ws w' = ws w"
    unfolding w' by (cases "ws w") (simp_all add: socketClose_def ws_markClosed)
  show "trace w' = trace w @ (case ws w of Some old \<Rightarrow> [SocketClose old] | None \<Rightarrow> [])"
    unfolding w' by (cases "ws w") (simp_all add: socketClose_def)
qed

lemma ex_open_twice:
  "initializeWebSocket [''SOLUSDT''] (run True [Open [''BTCUSDT'', ''ETHUSDT'']]) =
     (Inr 1, ex_world)"
  by (simp add: ws_eval_defs ex_world_def)

lemma ex_open_raises:
  "initializeWebSocket [''BTC#USDT''] (run True [Open [''BTCUSDT'', ''ETHUSDT'']]) =
     (Inl SyntaxError, ex_world_raised)"
  by (simp add: ws_eval_defs ex_world_raised_def)



section \<open>The claims about the stream handle\<close>

text \<open>
  C4. In every state that the module can reach, at most one socket has a connection that
  has not ended. A call of \<open>initializeWebSocket\<close> there first closes the stored handle,
  if any, so that every older socket is closed, and only then constructs the new socket
  (the trace shows the order). When the call returns a handle, the new socket is the
  only live one and the stored one, and its URL subscribes to the lower-cased symbols of
  this call, each followed by \<open>@ticker\<close>, joined by \<open>/\<close>. The call raises instead
  exactly when a symbol contains \<open>#\<close>: then the stored handle has been closed, no
  socket is live, and nothing new is stored.
\<close>

theorem initializeWebSocket_single_stream:
  assumes "initializeWebSocket symbols (run win acts) = (r, w')"
  shows "length (liveSockets (run win acts)) \<le> 1 \<and>
         (\<forall>i < length (sockets (run win acts)). closed (sockets w' ! i)) \<and>
         (case r of
            Inr h \<Rightarrow>
              (\<forall>s \<in> set symbols. CHR ''#'' \<notin> set s) \<and>
              liveSockets w' = [h] \<and> ws w' = Some h \<and>
              sockets w' ! h =
                \<lparr> url = ''wss://stream.binance.com:9443/stream?streams='' @
                        join ''/'' (map (\<lambda>symbol. toLowerCase symbol @ ''@ticker'') symbols),
                  closed = False \<rparr> \<and>
              trace w' = trace (run win acts) @
                (case ws (run win acts) of Some old \<Rightarrow> [SocketClose old] | None \<Rightarrow> []) @
                [SocketOpen h (url (sockets w' ! h))]
          | Inl e \<Rightarrow>
              (\<exists>s \<in> set symbols. CHR ''#'' \<in> set s) \<and> e = SyntaxError \<and>
              liveSockets w' = [] \<and> ws w' = ws (run win acts) \<and>
              trace w' = trace (run win acts) @
                (case ws (run win acts) of Some old \<Rightarrow> [SocketClose old] | None \<Rightarrow> []))"
proof -
  note inv = wsInv_run [of win acts]
  have live: "length (liveSockets (run win acts)) \<le> 1" by (rule liveSockets_le_1 [OF inv])
  show ?thesis
  proof (cases r)
    case (Inr h)
    note hw = assms [unfolded Inr]
    note p = initializeWebSocket_props [OF hw]
    have old: "closed (sockets w' ! i)" if "i < length (sockets (run win acts))" for i
      using p(5) [OF that] closed_before_open [OF inv that] by simp
    have u: "url (sockets w' ! h) = ''wss://stream.binance.com:9443/stream?streams='' @
                   join ''/'' (map (\<lambda>symbol. toLowerCase symbol @ ''@ticker'') symbols)"
      by (simp add: p(4))
    show ?thesis
      using live old Inr liveSockets_after_open [OF inv hw] p(2) p(4) p(6) p(7) u
      by simp
  next
    case (Inl e)
    note hw = assms [unfolded Inl]
    note q = liveSockets_after_raise [OF inv hw]
    note r = initializeWebSocket_raised [OF hw]
    have old: "closed (sockets w' ! i)" if "i < length (sockets (run win acts))" for i
      unfolding r(3) using closed_before_open [OF inv that] .
    show ?thesis
      using live old Inl q(1) q(2) q(3) r(1) r(2) by simp
  qed
qed

text \<open>
  C4 on the example of the specification: after the streams of BTCUSDT and ETHUSDT, a
  call for SOLUSDT leaves one live socket, subscribed to \<open>solusdt@ticker\<close> only; a call
  for \<open>BTC#USDT\<close> raises and leaves the first socket closed and none live.
\<close>

theorem initializeWebSocket_single_stream_witness:
  "initializeWebSocket [''SOLUSDT''] (run True [Open [''BTCUSDT'', ''ETHUSDT'']]) =
     (Inr 1, ex_world) \<and>
   liveSockets ex_world = [1] \<and> ws ex_world = Some 1 \<and>
   sockets ex_world ! 1 =
     \<lparr> url = ''wss://stream.binance.com:9443/stream?streams=solusdt@ticker'', closed = False \<rparr> \<and>
   closed (sockets ex_world ! 0) \<and>
   initializeWebSocket [''BTC#USDT''] (run True [Open [''BTCUSDT'', ''ETHUSDT'']]) =
     (Inl SyntaxError, ex_world_raised) \<and>
   liveSockets ex_world_raised = [] \<and> closed (sockets ex_world_raised ! 0) \<and>
   ws ex_world_raised = ws (run True [Open [''BTCUSDT'', ''ETHUSDT'']])"
proof -
  note t = initializeWebSocket_single_stream [OF ex_open_twice]
  note f = initializeWebSocket_single_stream [OF ex_open_raises]
  have len: "length (sockets (run True [Open [''BTCUSDT'', ''ETHUSDT'']])) = 1"
    by (simp add: ws_eval_defs)
  have "closed (sockets ex_world ! 0)" using t len by simp
  moreover have "closed (sockets ex_world_raised ! 0)" using f len by simp
  moreover have "sockets ex_world ! 1 =
     \<lparr> url = ''wss://stream.binance.com:9443/stream?streams=solusdt@ticker'', closed = False \<rparr>"
    using t by (simp add: toLowerCase_def lowerChar_def)
  moreover have "liveSockets ex_world = [1]" "ws ex_world = Some 1" using t by simp_all
  moreover have "liveSockets ex_world_raised = []"
    "ws ex_world_raised = ws (run True [Open [''BTCUSDT'', ''ETHUSDT'']])"
    using f by simp_all
  ultimately show ?thesis using ex_open_twice ex_open_raises by simp
qed




text \<open>
  C9. \<open>closeWebSocket\<close> leaves the stored handle cleared; when a handle was stored it
  calls \<open>close()\<close> on that socket, whose connection is then ended; when none was stored
  it changes nothing, so a second call in a row changes nothing.
\<close>

theorem closeWebSocket_idempotent:
  "ws (closeWebSocket w) = None \<and>
   closeWebSocket (closeWebSocket w) = closeWebSocket w \<and>
   (ws w = None \<longrightarrow> closeWebSocket w = w) \<and>
   (\<forall>h. ws w = Some h \<and> h < length (sockets w) \<longrightarrow>
      closed (sockets (closeWebSocket w) ! h) \<and>
      trace (closeWebSocket w) = trace w @ [SocketClose h])"
proof -
  have 1: "ws (closeWebSocket w) = None" for w
    by (cases "ws w") (simp_all add: closeWebSocket_def)
  have 2: "closeWebSocket w = w" if "ws w = None" for w
    using that by (simp add: closeWebSocket_def)
  have 3: "closed (sockets (closeWebSocket w) ! h) \<and>
           trace (closeWebSocket w) = trace w @ [SocketClose h]"
    if "ws w = Some h" "h < length (sockets w)" for h
    using that by (simp add: closeWebSocket_def socketClose_def markClosed_def)
  show ?thesis using 1 2 [OF 1] 2 3 by simp
qed

text \<open>C9 on the example state, where the socket with handle 1 is stored.\<close>

theorem closeWebSocket_idempotent_witness:
  "ws ex_world = Some 1 \<and> 1 < length (sockets ex_world) \<and>
   closed (sockets (closeWebSocket ex_world) ! 1) \<and>
   trace (closeWebSocket ex_world) = trace ex_world @ [SocketClose 1] \<and>
   ws (closeWebSocket ex_world) = None \<and> liveSockets (closeWebSocket ex_world) = [] \<and>
   closeWebSocket (closeWebSocket ex_world) = closeWebSocket ex_world"
proof -
  have h: "ws ex_world = Some 1" "1 < length (sockets ex_world)"
    by (simp_all add: ex_world_def)
  have "liveSockets (closeWebSocket ex_world) = []"
    by (simp add: liveSockets_def closeWebSocket_def socketClose_def markClosed_def ex_world_def
          upt_rec)
  then show ?thesis using closeWebSocket_idempotent [of ex_world] h by simp
qed

section \<open>The claim about formatPercentage\<close>

lemma decimalDigits_small: "n < 10 \<Longrightarrow> decimalDigits n = [digitChar n]"
  by (simp add: decimalDigits.simps)

lemma decimalDigits_large:
  "10 \<le> n \<Longrightarrow> decimalDigits n = decimalDigits (n div 10) @ [digitChar (n mod 10)]"
  by (subst decimalDigits.simps) simp

lemma toFixed_no_plus:
  assumes "\<not> js_greater p (Fin 0)"
  shows "hd (toFixed nts 2 p @ ''%'') \<noteq> CHR ''+''"
proof (cases p)
  case (Fin r)
  then have "r \<le> 0" using assms by (simp add: js_greater_def)
  then consider "r < 0" | "r = 0" by fastforce
  then show ?thesis
  proof cases
    case 1
    then show ?thesis using Fin by (simp add: toFixed_def Let_def)
  next
    case 2
    then show ?thesis using Fin by (simp add: toFixed_def)
  qed
qed (use assms in \<open>simp_all add: toFixed_def js_greater_def\<close>)

text \<open>
  C10. \<open>formatPercentage(0)\<close> is \<open>0.00%\<close>, without a sign, and the result starts
  with \<open>+\<close> exactly for the inputs that are greater than zero.
\<close>

theorem formatPercentage_zero_unsigned:
  "formatPercentage nts (Fin 0) = ''0.00%'' \<and>
   (hd (formatPercentage nts p) = CHR ''+'') = js_greater p (Fin 0)"
proof -
  have "formatPercentage nts (Fin 0) = ''0.00%''"
    by (simp add: formatPercentage_def toFixed_def js_greater_def)
  moreover have "(hd (formatPercentage nts p) = CHR ''+'') = js_greater p (Fin 0)"
    using toFixed_no_plus [of p nts] by (simp add: formatPercentage_def)
  ultimately show ?thesis by simp
qed

text \<open>The examples of the specification.\<close>

lemma formatPercentage_examples:
  "formatPercentage nts (Fin 3.14159) = ''+3.14%''"
  "formatPercentage nts (Fin (- 1.2)) = ''-1.20%''"
proof -
  have "\<lfloor>(3.14159::rat) * 10\<^sup>2 + 1 / 2\<rfloor> = 314" by (simp add: floor_unique)
  then have "nat \<lfloor>(3.14159::rat) * 10\<^sup>2 + 1 / 2\<rfloor> = 314" by (simp only: nat_numeral)
  then show "formatPercentage nts (Fin 3.14159) = ''+3.14%''"
    by (simp add: formatPercentage_def toFixed_def js_greater_def Let_def digitChar_def
          decimalDigits_small decimalDigits_large)
  have "\<lfloor>(1.2::rat) * 10\<^sup>2 + 1 / 2\<rfloor> = 120" by (simp add: floor_unique)
  then have "nat \<lfloor>(1.2::rat) * 10\<^sup>2 + 1 / 2\<rfloor> = 120" by (simp only: nat_numeral)
  then show "formatPercentage nts (Fin (- 1.2)) = ''-1.20%''"
    by (simp add: formatPercentage_def toFixed_def js_greater_def Let_def digitChar_def
          decimalDigits_small decimalDigits_large)
qed

end
